theory Spec2Isabelle
  imports Complex_Main "HOL-Library.Word"
begin

section \<open>Go strings and the library functions the search handler calls\<close>

text \<open>
  A Go \<^verbatim>\<open>string\<close> is a sequence of bytes; it is modelled as \<^typ>\<open>string\<close>
  (a list of 8-bit characters). An \<^verbatim>\<open>error\<close> value is modelled by its message.
\<close>

type_synonym error = string

subsection \<open>\<^verbatim>\<open>strings.Split\<close> and \<^verbatim>\<open>strings.SplitSeq\<close>\<close>

text \<open>
  The handler only ever splits on the one-byte separators \<^verbatim>\<open>","\<close> and
  \<^verbatim>\<open>"|"\<close>, so the separator is a single character here.
  \<^verbatim>\<open>IndexByte\<close> is the position of the first occurrence of the separator.
\<close>

fun IndexByte :: "string \<Rightarrow> char \<Rightarrow> nat option" where
  "IndexByte [] sep = None"
| "IndexByte (c # cs) sep =
     (if c = sep then Some 0 else map_option Suc (IndexByte cs sep))"

lemma IndexByte_less: "IndexByte s sep = Some i \<Longrightarrow> i < length s"
  by (induction s arbitrary: i) (auto split: if_splits)

text \<open>
  \<^verbatim>\<open>Split\<close> cuts at every separator: while the separator occurs, the text before it
  is the next piece and the scan goes on behind it; what is left is the last piece. The
  empty string gives the single piece \<^verbatim>\<open>""\<close>.
\<close>

function Split :: "string \<Rightarrow> char \<Rightarrow> string list" where
  "Split s sep =
     (case IndexByte s sep of
        None \<Rightarrow> [s]
      | Some i \<Rightarrow> take i s # Split (drop (i + 1) s) sep)"
  by pat_completeness auto
termination
  by (relation "measure (\<lambda>(s, sep). length s)") (auto dest: IndexByte_less)

declare Split.simps [simp del]

text \<open>
  \<^verbatim>\<open>SplitSeq\<close> yields, one by one, the strings \<^verbatim>\<open>Split\<close> returns; a
  \<^verbatim>\<open>for ... range\<close> over it visits them in that order.
\<close>

definition SplitSeq :: "string \<Rightarrow> char \<Rightarrow> string list" where
  "SplitSeq s sep = Split s sep"

subsection \<open>\<^verbatim>\<open>strings.TrimSpace\<close>\<close>

text \<open>
  \<^verbatim>\<open>TrimSpace\<close> removes the white space (as Unicode defines it) at both ends. In
  UTF-8 the white-space code points are the six ASCII bytes tab, line feed, vertical tab,
  form feed, carriage return and space, and the multi-byte encodings of U+0085, U+00A0,
  U+1680, U+2000 to U+200A, U+2028, U+2029, U+202F, U+205F and U+3000.
\<close>

definition asciiSpace :: "string list" where
  "asciiSpace = [[CHR 0x09], [CHR 0x0A], [CHR 0x0B], [CHR 0x0C], [CHR 0x0D], [CHR 0x20]]"

definition unicodeSpace :: "string list" where
  "unicodeSpace =
     [[CHR 0xC2, CHR 0x85], [CHR 0xC2, CHR 0xA0], [CHR 0xE1, CHR 0x9A, CHR 0x80],
      [CHR 0xE2, CHR 0x80, CHR 0x80], [CHR 0xE2, CHR 0x80, CHR 0x81],
      [CHR 0xE2, CHR 0x80, CHR 0x82], [CHR 0xE2, CHR 0x80, CHR 0x83],
      [CHR 0xE2, CHR 0x80, CHR 0x84], [CHR 0xE2, CHR 0x80, CHR 0x85],
      [CHR 0xE2, CHR 0x80, CHR 0x86], [CHR 0xE2, CHR 0x80, CHR 0x87],
      [CHR 0xE2, CHR 0x80, CHR 0x88], [CHR 0xE2, CHR 0x80, CHR 0x89],
      [CHR 0xE2, CHR 0x80, CHR 0x8A], [CHR 0xE2, CHR 0x80, CHR 0xA8],
      [CHR 0xE2, CHR 0x80, CHR 0xA9], [CHR 0xE2, CHR 0x80, CHR 0xAF],
      [CHR 0xE2, CHR 0x81, CHR 0x9F], [CHR 0xE3, CHR 0x80, CHR 0x80]]"

text \<open>The white-space rune a string starts with, and the one it ends with.\<close>

definition leadingSpace :: "string \<Rightarrow> string option" where
  "leadingSpace s = find (\<lambda>t. take (length t) s = t) (asciiSpace @ unicodeSpace)"

definition trailingSpace :: "string \<Rightarrow> string option" where
  "trailingSpace s =
     find (\<lambda>t. length t \<le> length s \<and> drop (length s - length t) s = t)
       (asciiSpace @ unicodeSpace)"

lemma find_SomeD: "find P xs = Some x \<Longrightarrow> x \<in> set xs \<and> P x"
  by (induction xs) (auto split: if_splits)

lemma isSpace_nonempty: "t \<in> set (asciiSpace @ unicodeSpace) \<Longrightarrow> 0 < length t"
  by (auto simp: asciiSpace_def unicodeSpace_def)

lemma leadingSpace_shorter:
  "leadingSpace s = Some t \<Longrightarrow> length s - length t < length s"
proof -
  assume "leadingSpace s = Some t"
  then have mem: "t \<in> set (asciiSpace @ unicodeSpace)" and pre: "take (length t) s = t"
    by (auto simp: leadingSpace_def dest: find_SomeD)
  from mem have "0 < length t" by (rule isSpace_nonempty)
  moreover have "length (take (length t) s) \<le> length s"
    by simp
  with pre have "length t \<le> length s"
    by simp
  ultimately show ?thesis by arith
qed

lemma trailingSpace_shorter:
  "trailingSpace s = Some t \<Longrightarrow> length s - length t < length s"
proof -
  assume "trailingSpace s = Some t"
  then have mem: "t \<in> set (asciiSpace @ unicodeSpace)" and le: "length t \<le> length s"
    by (auto simp: trailingSpace_def dest: find_SomeD)
  from mem have "0 < length t" by (rule isSpace_nonempty)
  with le show ?thesis by arith
qed

function TrimLeft :: "string \<Rightarrow> string" where
  "TrimLeft s =
     (case leadingSpace s of
        None \<Rightarrow> s
      | Some t \<Rightarrow> TrimLeft (drop (length t) s))"
  by pat_completeness auto
termination
  by (relation "measure length") (auto dest: leadingSpace_shorter)

function TrimRight :: "string \<Rightarrow> string" where
  "TrimRight s =
     (case trailingSpace s of
        None \<Rightarrow> s
      | Some t \<Rightarrow> TrimRight (take (length s - length t) s))"
  by pat_completeness auto
termination
  by (relation "measure length") (auto dest: trailingSpace_shorter)

declare TrimLeft.simps [simp del] TrimRight.simps [simp del]

definition TrimSpace :: "string \<Rightarrow> string" where
  "TrimSpace s = TrimRight (TrimLeft s)"

subsection \<open>\<^verbatim>\<open>strings.ToLower\<close>\<close>

text \<open>
  On a string of ASCII bytes only, \<^verbatim>\<open>ToLower\<close> replaces each of \<^verbatim>\<open>A\<close> to
  \<^verbatim>\<open>Z\<close> by its lower-case letter and keeps every other byte. On any other string it
  maps the Unicode lower-casing table over the runes; that table is not modelled, and the
  mapping is the parameter \<open>unicodeLower\<close>.
\<close>

definition isUpperASCII :: "char \<Rightarrow> bool" where
  "isUpperASCII c = (of_char CHR ''A'' \<le> (of_char c :: nat) \<and> (of_char c :: nat) \<le> of_char CHR ''Z'')"

definition lowerASCII :: "char \<Rightarrow> char" where
  "lowerASCII c = (if isUpperASCII c then char_of (of_char c + (32 :: nat)) else c)"

definition isASCII :: "string \<Rightarrow> bool" where
  "isASCII s = list_all (\<lambda>c. (of_char c :: nat) < 128) s"

definition ToLower :: "(string \<Rightarrow> string) \<Rightarrow> string \<Rightarrow> string" where
  "ToLower unicodeLower s = (if isASCII s then map lowerASCII s else unicodeLower s)"

section \<open>The category tagger\<close>

text \<open>
  A nullable column (\<^verbatim>\<open>sql.NullString\<close>) is an \<^typ>\<open>string option\<close>. The loop
  body of \<^verbatim>\<open>Search\<close> builds the list of a row's categories by appending to an empty
  slice: the main category when it is valid, then every piece of the alternate
  categories, trimmed.
\<close>

fun appendTrimmed :: "string list \<Rightarrow> string list \<Rightarrow> string list" where
  "appendTrimmed categories [] = categories"
| "appendTrimmed categories (cat # rest) = appendTrimmed (categories @ [TrimSpace cat]) rest"

definition rowCategories :: "string option \<Rightarrow> string option \<Rightarrow> string list" where
  "rowCategories mainCategory alternateCategory =
     (let categories = [];
          categories = (case mainCategory of
                          Some m \<Rightarrow> categories @ [m]
                        | None \<Rightarrow> categories)
      in case alternateCategory of
           Some a \<Rightarrow> appendTrimmed categories (SplitSeq a CHR ''|'')
         | None \<Rightarrow> categories)"

section \<open>The category filter\<close>

text \<open>
  The filter is a Go \<^verbatim>\<open>map[string]struct{}\<close> used as a set of keys. \<open>None\<close> is the
  \<^verbatim>\<open>nil\<close> map that \<^verbatim>\<open>parseCategories\<close> returns for the empty parameter;
  \<^verbatim>\<open>len\<close> of it is 0 and no key exists in it.
\<close>

type_synonym categorySet = "string set option"

definition len_map :: "categorySet \<Rightarrow> nat" where
  "len_map m = (case m of None \<Rightarrow> 0 | Some keys \<Rightarrow> card keys)"

definition exists_key :: "categorySet \<Rightarrow> string \<Rightarrow> bool" where
  "exists_key m k = (case m of None \<Rightarrow> False | Some keys \<Rightarrow> k \<in> keys)"

fun collectCategories :: "(string \<Rightarrow> string) \<Rightarrow> string list \<Rightarrow> string set \<Rightarrow> error + string set" where
  "collectCategories unicodeLower [] categories = Inr categories"
| "collectCategories unicodeLower (cat # rest) categories =
     (let cat = TrimSpace cat
      in if cat = [] then Inl ''category cannot be an empty string''
         else collectCategories unicodeLower rest (insert (ToLower unicodeLower cat) categories))"

definition parseCategories :: "(string \<Rightarrow> string) \<Rightarrow> string \<Rightarrow> error + categorySet" where
  "parseCategories unicodeLower categoriesStr =
     (if categoriesStr = [] then Inr None
      else case collectCategories unicodeLower (SplitSeq categoriesStr CHR '','') {} of
             Inl err \<Rightarrow> Inl err
           | Inr categories \<Rightarrow> Inr (Some categories))"

fun hasCategoryMatch :: "string list \<Rightarrow> categorySet \<Rightarrow> bool" where
  "hasCategoryMatch [] categories = False"
| "hasCategoryMatch (item # items) categories =
     (if exists_key categories item then True else hasCategoryMatch items categories)"

section \<open>The bounding box\<close>

text \<open>
  \<^verbatim>\<open>strconv.ParseFloat\<close> and the type \<^verbatim>\<open>float64\<close> are not modelled: the
  number type is the type variable \<open>'f\<close> and the parser is the parameter
  \<open>ParseFloat\<close>, which returns a number or an error. The box is a slice of four numbers,
  indexed by the constants below.
\<close>

definition LEFT :: nat where "LEFT = 0"
definition BOTTOM :: nat where "BOTTOM = 1"
definition RIGHT :: nat where "RIGHT = 2"
definition TOP :: nat where "TOP = 3"

fun fillBBox :: "(string \<Rightarrow> error + 'f) \<Rightarrow> nat \<Rightarrow> string list \<Rightarrow> 'f list \<Rightarrow> error + 'f list" where
  "fillBBox ParseFloat i [] bbox = Inr bbox"
| "fillBBox ParseFloat i (part # rest) bbox =
     (case ParseFloat (TrimSpace part) of
        Inl err \<Rightarrow> Inl (''invalid bbox value '' @ [CHR 0x27] @ part @ [CHR 0x27] @ '': not a valid float'')
      | Inr val \<Rightarrow> fillBBox ParseFloat (i + 1) rest (bbox[i := val]))"

definition parseBBox :: "(string \<Rightarrow> error + 'f::zero) \<Rightarrow> string \<Rightarrow> error + 'f list" where
  "parseBBox ParseFloat bboxStr =
     (let bboxParts = Split bboxStr CHR '',''
      in if length bboxParts \<noteq> 4 then Inl ''bbox must have 4 comma-separated values''
         else fillBBox ParseFloat 0 bboxParts (replicate 4 0))"

section \<open>The geometry decoder\<close>

text \<open>
  The blob is a slice of bytes. \<^verbatim>\<open>wkb.Unmarshal\<close> and \<^verbatim>\<open>wkt.Marshal\<close> belong
  to the geometry library and are the parameters \<open>Unmarshal\<close> and \<open>Marshal\<close>. What
  \<^verbatim>\<open>Unmarshal\<close> returns is a point (of a type \<open>'p\<close> the library owns) or a
  geometry of another dynamic type, of which only the name that \<^verbatim>\<open>%T\<close> prints is
  used.
\<close>

type_synonym bytes = "8 word list"

datatype 'p geom_T = Point 'p | NotPoint string

fun typeName :: "'p geom_T \<Rightarrow> string" where
  "typeName (Point p) = ''*geom.Point''"
| "typeName (NotPoint name) = name"

definition wkbPointToWKT ::
  "(bytes \<Rightarrow> error + 'p geom_T) \<Rightarrow> ('p \<Rightarrow> error + string) \<Rightarrow> bytes \<Rightarrow> error + string" where
  "wkbPointToWKT Unmarshal Marshal geomBytes =
     (if length geomBytes < 8
      then Inl ''input byte slice is too short to contain a GeoPackage header and WKB data''
      else let wkbData = drop 8 geomBytes
           in case Unmarshal wkbData of
                Inl err \<Rightarrow> Inl (''error unmarshaling WKB: '' @ err)
              | Inr g \<Rightarrow>
                  (case g of
                     NotPoint name \<Rightarrow> Inl (''decoded geometry is not a Point, but a '' @ typeName g)
                   | Point point \<Rightarrow>
                       (case Marshal point of
                          Inl err \<Rightarrow> Inl (''error marshaling to WKT: '' @ err)
                        | Inr wktString \<Rightarrow> Inr wktString)))"

section \<open>Rows, points of interest and the search handler\<close>

text \<open>The columns of a row of \<^verbatim>\<open>poi_uk\<close>, in the order of the SELECT.\<close>

record 'f Row =
  col_fid :: int
  col_geom :: bytes
  col_id :: string
  col_primary_name :: "string option"
  col_main_category :: "string option"
  col_alternate_category :: "string option"
  col_address :: "string option"
  col_locality :: "string option"
  col_postcode :: "string option"
  col_region :: "string option"
  col_country :: "string option"
  col_source :: string
  col_source_record_id :: string
  col_lat :: 'f
  col_long :: 'f
  col_h3_15 :: string
  col_easting :: 'f
  col_northing :: 'f
  col_lsoa21cd :: string

record 'f POI =
  Fid :: int
  Geom :: string
  Id_poi :: string
  PrimaryName :: "string option"
  Categories :: "string list"
  Address :: "string option"
  Locality :: "string option"
  Postcode :: "string option"
  Region :: "string option"
  Country :: "string option"
  Source :: string
  SourceRecordId :: string
  Lat :: 'f
  Long :: 'f
  H3_15 :: string
  Easting :: 'f
  Northing :: 'f
  LSOA21CD :: string

text \<open>
  What the handler gets from \<^verbatim>\<open>db.Query\<close>: an error, or a cursor. A cursor is the
  sequence of \<^verbatim>\<open>rows.Scan\<close> outcomes for the rows \<^verbatim>\<open>rows.Next\<close> delivers, and the
  error, if any, that \<^verbatim>\<open>rows.Err\<close> reports when \<^verbatim>\<open>Next\<close> has returned false.
\<close>

datatype 'f scanned = ScanError error | Scanned "'f Row"

record 'f Rows =
  scans :: "'f scanned list"
  rowsErr :: "error option"

text \<open>
  A reply is \<^verbatim>\<open>c.JSON(status, body)\<close>. The body is \<^verbatim>\<open>gin.H{"error": msg}\<close> or a
  \<^verbatim>\<open>Response\<close>, whose \<^verbatim>\<open>Results\<close> is a slice: \<open>None\<close> is the \<^verbatim>\<open>nil\<close> slice
  \<^verbatim>\<open>var results []POI\<close> declares, and \<^verbatim>\<open>append\<close> to it gives a slice of one
  element. The outcome of a request is that reply and the lines written with
  \<^verbatim>\<open>log.Printf\<close> (the message only, without the logger's time stamp).
\<close>

datatype 'f body = H_error string | Response (Results: "'f POI list option")

datatype 'f reply = JSON (status: nat) (body: "'f body")

datatype 'f outcome = Outcome (logged: "string list") (reply: "'f reply")

definition StatusOK :: nat where "StatusOK = 200"
definition StatusBadRequest :: nat where "StatusBadRequest = 400"
definition StatusInternalServerError :: nat where "StatusInternalServerError = 500"

text \<open>Every failure behind the two validations logs one line and sends the same reply.\<close>

definition internalError :: "string \<Rightarrow> 'f outcome" where
  "internalError line =
     Outcome [line]
       (JSON StatusInternalServerError (H_error ''An internal server error occurred''))"

fun append_slice :: "'a list option \<Rightarrow> 'a \<Rightarrow> 'a list option" where
  "append_slice None x = Some [x]"
| "append_slice (Some xs) x = Some (xs @ [x])"

text \<open>
  One pass of the loop body overwrites every field of the variable \<^verbatim>\<open>poi\<close>: the
  seventeen scanned ones, then \<^verbatim>\<open>Geom\<close> and \<^verbatim>\<open>Categories\<close>. The value
  appended to the results is therefore a function of the current row alone.
\<close>

definition scanPOI :: "'f Row \<Rightarrow> string \<Rightarrow> string list \<Rightarrow> 'f POI" where
  "scanPOI row wktString categories =
     \<lparr> Fid = col_fid row, Geom = wktString, Id_poi = col_id row,
       PrimaryName = col_primary_name row, Categories = categories,
       Address = col_address row, Locality = col_locality row,
       Postcode = col_postcode row, Region = col_region row, Country = col_country row,
       Source = col_source row, SourceRecordId = col_source_record_id row,
       Lat = col_lat row, Long = col_long row, H3_15 = col_h3_15 row,
       Easting = col_easting row, Northing = col_northing row,
       LSOA21CD = col_lsoa21cd row \<rparr>"

text \<open>
  The loop over the cursor. It ends with the results, or at the first failing row with the
  line that is logged before the handler returns.
\<close>

fun scanRows ::
  "(bytes \<Rightarrow> error + 'p geom_T) \<Rightarrow> ('p \<Rightarrow> error + string) \<Rightarrow> categorySet \<Rightarrow>
   'f scanned list \<Rightarrow> 'f POI list option \<Rightarrow> string + 'f POI list option" where
  "scanRows Unmarshal Marshal categories [] results = Inr results"
| "scanRows Unmarshal Marshal categories (ScanError err # rest) results =
     Inl (''error scanning row: '' @ err)"
| "scanRows Unmarshal Marshal categories (Scanned row # rest) results =
     (case wkbPointToWKT Unmarshal Marshal (col_geom row) of
        Inl err \<Rightarrow> Inl (''error converting WKB to WKT: '' @ err)
      | Inr wktString \<Rightarrow>
          (let poi = scanPOI row wktString
                       (rowCategories (col_main_category row) (col_alternate_category row))
           in if len_map categories = 0 \<or> hasCategoryMatch (Categories poi) categories
              then scanRows Unmarshal Marshal categories rest (append_slice results poi)
              else scanRows Unmarshal Marshal categories rest results))"

text \<open>
  The handler, as a function of the two query parameters (\<^verbatim>\<open>c.Query\<close> gives the empty
  string for an absent one). \<open>Query\<close> stands for \<^verbatim>\<open>db.Query\<close> with the SELECT of the
  source and its four arguments in the order the source passes them.
\<close>

definition Search ::
  "(string \<Rightarrow> error + 'f::zero) \<Rightarrow> (string \<Rightarrow> string) \<Rightarrow>
   (bytes \<Rightarrow> error + 'p geom_T) \<Rightarrow> ('p \<Rightarrow> error + string) \<Rightarrow>
   ('f \<Rightarrow> 'f \<Rightarrow> 'f \<Rightarrow> 'f \<Rightarrow> error + 'f Rows) \<Rightarrow> string \<Rightarrow> string \<Rightarrow> 'f outcome" where
  "Search ParseFloat unicodeLower Unmarshal Marshal Query bboxParam categoriesParam =
     (case parseBBox ParseFloat bboxParam of
        Inl err \<Rightarrow> Outcome [] (JSON StatusBadRequest (H_error err))
      | Inr bbox \<Rightarrow>
          (case parseCategories unicodeLower categoriesParam of
             Inl err \<Rightarrow> Outcome [] (JSON StatusBadRequest (H_error err))
           | Inr categories \<Rightarrow>
               (case Query (bbox ! BOTTOM) (bbox ! TOP) (bbox ! LEFT) (bbox ! RIGHT) of
                  Inl err \<Rightarrow> internalError (''error querying database: '' @ err)
                | Inr rows \<Rightarrow>
                    (case scanRows Unmarshal Marshal categories (scans rows) None of
                       Inl line \<Rightarrow> internalError line
                     | Inr results \<Rightarrow>
                         (case rowsErr rows of
                            Some err \<Rightarrow> internalError (''error during rows iteration: '' @ err)
                          | None \<Rightarrow> Outcome [] (JSON StatusOK (Response results)))))))"

subsection \<open>The row source and the encoding of the reply\<close>

text \<open>
  The WHERE clause of the SELECT, \<^verbatim>\<open>lat BETWEEN ? AND ? AND long BETWEEN ? AND ?\<close>,
  over a table held as a list: the rows inside the bounds (both ends included), in the
  order of the table, every one scanned without error.
\<close>

definition selectWithin ::
  "('f::linorder) Row list \<Rightarrow> 'f \<Rightarrow> 'f \<Rightarrow> 'f \<Rightarrow> 'f \<Rightarrow> error + 'f Rows" where
  "selectWithin table latLow latHigh longLow longHigh =
     Inr \<lparr> scans = map Scanned
                     (filter (\<lambda>row. latLow \<le> col_lat row \<and> col_lat row \<le> latHigh \<and>
                                    longLow \<le> col_long row \<and> col_long row \<le> longHigh) table),
           rowsErr = None \<rparr>"

text \<open>
  \<^verbatim>\<open>strings.Join\<close>, and what \<^verbatim>\<open>encoding/json\<close> writes for a \<^verbatim>\<open>Response\<close>: one
  object with the key \<^verbatim>\<open>results\<close> (the tag has no \<^verbatim>\<open>omitempty\<close>), whose value is
  \<^verbatim>\<open>null\<close> for a nil slice and an array otherwise. The encoding of one POI is the
  parameter \<open>marshalPOI\<close>.
\<close>

fun Join :: "string list \<Rightarrow> string \<Rightarrow> string" where
  "Join [] sep = []"
| "Join [x] sep = x"
| "Join (x # y # zs) sep = x @ sep @ Join (y # zs) sep"

definition marshalResponse :: "('f POI \<Rightarrow> string) \<Rightarrow> 'f POI list option \<Rightarrow> string" where
  "marshalResponse marshalPOI results =
     ''{'' @ [CHR 0x22] @ ''results'' @ [CHR 0x22] @ '':'' @
     (case results of
        None \<Rightarrow> ''null''
      | Some pois \<Rightarrow> ''['' @ Join (map marshalPOI pois) '','' @ '']'') @ ''}''"

subsection \<open>The binary point payload and its text\<close>

text \<open>
  Modelled from the spec: \<^verbatim>\<open>wkb.Unmarshal\<close> and \<^verbatim>\<open>wkt.Marshal\<close> are functions of
  the geometry library, which is not part of the sources. The specification describes the
  blob as an eight-byte header followed by a standard binary point-geometry payload, and
  the text as \<^verbatim>\<open>POINT\<close>, an opening parenthesis, the longitude, a space, the latitude
  and a closing parenthesis. The standard payload of a two-dimensional point is 21 bytes:
  one byte for the byte order (0 for big-endian, 1 for little-endian), the geometry type 1
  as an unsigned 32-bit integer, and the two coordinates as 64-bit IEEE-754 doubles, x
  (the longitude) before y (the latitude), all in that byte order.

  A coordinate is kept as its 64 bits. Numbers are read as
  \<^verbatim>\<open>binary.LittleEndian\<close> and \<^verbatim>\<open>binary.BigEndian\<close> read them: the first byte is
  the least significant one in little-endian order and the most significant one in
  big-endian order.
\<close>

fun leWord :: "bytes \<Rightarrow> 'a::len word" where
  "leWord [] = 0"
| "leWord (b # bs) = or (ucast b) (push_bit 8 (leWord bs))"

fun leBytes :: "nat \<Rightarrow> 'a::len word \<Rightarrow> bytes" where
  "leBytes 0 w = []"
| "leBytes (Suc n) w = ucast w # leBytes n (drop_bit 8 w)"

definition getWord :: "bool \<Rightarrow> bytes \<Rightarrow> 'a::len word" where
  "getWord littleEndian bs = leWord (if littleEndian then bs else rev bs)"

definition putWord :: "bool \<Rightarrow> nat \<Rightarrow> 'a::len word \<Rightarrow> bytes" where
  "putWord littleEndian n w = (if littleEndian then leBytes n w else rev (leBytes n w))"

text \<open>
  The bits of a double are a NaN when the eleven exponent bits are all set and the
  fraction is not zero. The payload whose coordinates are NaN stands for the point without
  coordinates, and is left to the rest of the library together with every other payload.
\<close>

definition isNaN :: "64 word \<Rightarrow> bool" where
  "isNaN bits = (take_bit 11 (drop_bit 52 bits) = 0x7FF \<and> take_bit 52 bits \<noteq> 0)"

definition wkbPoint :: "bool \<Rightarrow> 64 word \<Rightarrow> 64 word \<Rightarrow> bytes" where
  "wkbPoint littleEndian lon lat =
     [if littleEndian then 1 else 0] @ putWord littleEndian 4 (1 :: 32 word) @
     putWord littleEndian 8 lon @ putWord littleEndian 8 lat"

text \<open>
  The parser on the payload of a two-dimensional point with coordinates; on anything else
  it is the parameter \<open>otherwise\<close> (the other geometry kinds and dimensions, the point
  without coordinates, and the errors).
\<close>

definition wkbUnmarshal ::
  "(bytes \<Rightarrow> error + (64 word \<times> 64 word) geom_T) \<Rightarrow> bytes \<Rightarrow>
   error + (64 word \<times> 64 word) geom_T" where
  "wkbUnmarshal otherwise wkbData =
     (if length wkbData = 21 \<and> (wkbData ! 0 = 0 \<or> wkbData ! 0 = 1)
      then let littleEndian = (wkbData ! 0 = 1);
               x = getWord littleEndian (take 8 (drop 5 wkbData));
               y = getWord littleEndian (take 8 (drop 13 wkbData))
           in if (getWord littleEndian (take 4 (drop 1 wkbData)) :: 32 word) = 1 \<and>
                 \<not> isNaN x \<and> \<not> isNaN y
              then Inr (Point (x, y))
              else otherwise wkbData
      else otherwise wkbData)"

text \<open>
  The writer of the text. How a double is written in decimal is the parameter
  \<open>FormatFloat\<close>, and the white space between the word \<^verbatim>\<open>POINT\<close> and the parenthesis,
  which the text format leaves to the writer, is the parameter \<open>gap\<close> (empty in the
  specification's rendering).
\<close>

definition wktMarshal ::
  "string \<Rightarrow> (64 word \<Rightarrow> string) \<Rightarrow> 64 word \<times> 64 word \<Rightarrow> error + string" where
  "wktMarshal gap FormatFloat point =
     Inr (''POINT'' @ gap @ ''('' @ FormatFloat (fst point) @ '' '' @
          FormatFloat (snd point) @ '')'')"

subsection \<open>Notions of the specification\<close>

text \<open>
  The elements of a slice, the POI the handler makes of a row that decodes, and the strings
  that contain one of the ASCII letters \<^verbatim>\<open>A\<close> to \<^verbatim>\<open>Z\<close>.
\<close>

definition elems :: "'a list option \<Rightarrow> 'a list" where
  "elems results = (case results of None \<Rightarrow> [] | Some xs \<Rightarrow> xs)"

definition decodedPOI ::
  "(bytes \<Rightarrow> error + 'p geom_T) \<Rightarrow> ('p \<Rightarrow> error + string) \<Rightarrow> 'f Row \<Rightarrow> 'f POI" where
  "decodedPOI Unmarshal Marshal row =
     scanPOI row (projr (wkbPointToWKT Unmarshal Marshal (col_geom row)))
       (rowCategories (col_main_category row) (col_alternate_category row))"

definition hasUpperASCII :: "string \<Rightarrow> bool" where
  "hasUpperASCII s = list_ex isUpperASCII s"

subsection \<open>Sample data for running the handler\<close>

text \<open>
  A table of one row at latitude 51.5 and longitude -0.12, with the categories
  \<^verbatim>\<open>Cafe\<close> and \<^verbatim>\<open>Bakery\<close>; its blob is an eight-byte header and the little-endian
  binary form of that point. The library functions are given by what they return on
  the sample.
\<close>

definition sampleBlob :: bytes where
  "sampleBlob =
     [0x47, 0x50, 0x00, 0x01, 0xE6, 0x10, 0x00, 0x00,
      0x01, 0x01, 0x00, 0x00, 0x00,
      0xB8, 0x1E, 0x85, 0xEB, 0x51, 0xB8, 0xBE, 0xBF,
      0x00, 0x00, 0x00, 0x00, 0x00, 0xC0, 0x49, 0x40]"

definition sampleRow :: "real Row" where
  "sampleRow =
     \<lparr> col_fid = 1, col_geom = sampleBlob, col_id = ''poi-1'',
       col_primary_name = Some ''Corner Cafe'', col_main_category = Some ''Cafe'',
       col_alternate_category = Some ''Bakery'', col_address = None, col_locality = None,
       col_postcode = None, col_region = None, col_country = Some ''GB'',
       col_source = ''sample'', col_source_record_id = ''1'',
       col_lat = 51.5, col_long = - 0.12, col_h3_15 = ''8f194ad32d4a6a1'',
       col_easting = 530000, col_northing = 180000, col_lsoa21cd = ''E01000001'' \<rparr>"

definition sampleTable :: "real Row list" where
  "sampleTable =
     [sampleRow,
      sampleRow\<lparr> col_fid := 2, col_id := ''poi-2'', col_main_category := Some ''cafe'' \<rparr>]"

definition sampleParseFloat :: "string \<Rightarrow> error + real" where
  "sampleParseFloat s =
     (case map_of [(''-1'', - 1), (''51'', 51), (''1'', 1), (''52'', 52), (''2'', 2),
                   (''3'', 3), (''4'', 4)] s of
        Some v \<Rightarrow> Inr v
      | None \<Rightarrow> Inl ''invalid syntax'')"

definition sampleUnmarshal :: "bytes \<Rightarrow> error + (real \<times> real) geom_T" where
  "sampleUnmarshal wkbData =
     (if wkbData = drop 8 sampleBlob then Inr (Point (- 0.12, 51.5))
      else if wkbData = [0x01, 0x02, 0x00, 0x00, 0x00, 0x00, 0x00, 0x00, 0x00]
      then Inr (NotPoint ''*geom.LineString'')
      else Inl ''unexpected EOF'')"

definition sampleMarshal :: "real \<times> real \<Rightarrow> error + string" where
  "sampleMarshal point =
     (if point = (- 0.12, 51.5) then Inr ''POINT (-0.12 51.5)''
      else Inl ''unsupported coordinates'')"

definition sampleMarshalPOI :: "real POI \<Rightarrow> string" where
  "sampleMarshalPOI poi = ''{'' @ [CHR 0x22] @ ''id'' @ [CHR 0x22] @ '':'' @
     [CHR 0x22] @ Id_poi poi @ [CHR 0x22] @ ''}''"

definition sampleFormatFloat :: "64 word \<Rightarrow> string" where
  "sampleFormatFloat bits =
     (if bits = 0xBFBEB851EB851EB8 then ''-0.12''
      else if bits = 0x4049C00000000000 then ''51.5''
      else if bits = 0x3FF0000000000000 then ''1''
      else if bits = 0x4000000000000000 then ''2''
      else ''0'')"

definition sampleOtherwise :: "bytes \<Rightarrow> error + (64 word \<times> 64 word) geom_T" where
  "sampleOtherwise wkbData = Inl ''unexpected EOF''"

text \<open>
  The UTF-8 encoding of U+1D400 (mathematical bold capital A), an upper-case letter
  without a lower-case form, and the sample row with that letter as its only category.
\<close>

definition mathBoldCapitalA :: string where
  "mathBoldCapitalA = [CHR 0xF0, CHR 0x9D, CHR 0x90, CHR 0x80]"

definition capitalRow :: "real Row" where
  "capitalRow =
     sampleRow\<lparr> col_fid := 3, col_id := ''poi-3'', col_main_category := Some mathBoldCapitalA,
               col_alternate_category := None \<rparr>"

section \<open>Properties\<close>

subsection \<open>Splitting\<close>

text \<open>
  The pieces of \<^verbatim>\<open>Split\<close> are what lies between the separators: there is one more
  piece than there are separators, no piece contains the separator, and joining the
  pieces with the separator gives the string back.
\<close>

lemma Split_Nil: "Split [] sep = [[]]"
  by (simp add: Split.simps)

lemma Split_Cons:
  "Split (c # cs) sep =
     (if c = sep then [] # Split cs sep
      else (c # hd (Split cs sep)) # tl (Split cs sep))"
proof -
  have L: "Split (c # cs) sep =
             (case IndexByte (c # cs) sep of
                None \<Rightarrow> [c # cs]
              | Some i \<Rightarrow> take i (c # cs) # Split (drop (i + 1) (c # cs)) sep)"
    by (rule Split.simps)
  have R: "Split cs sep =
             (case IndexByte cs sep of
                None \<Rightarrow> [cs]
              | Some i \<Rightarrow> take i cs # Split (drop (i + 1) cs) sep)"
    by (rule Split.simps)
  show ?thesis
  proof (cases "c = sep")
    case True
    then show ?thesis unfolding L by simp
  next
    case False
    then show ?thesis unfolding L R by (cases "IndexByte cs sep") simp_all
  qed
qed

lemma Split_not_Nil: "Split s sep \<noteq> []"
  by (cases s) (simp_all add: Split_Nil Split_Cons)

lemma Join_Cons_Cons: "Join ((c # x) # xs) sep = c # Join (x # xs) sep"
  by (cases xs) simp_all

lemma Join_Split: "Join (Split s sep) [sep] = s"
proof (induction s)
  case Nil
  show ?case by (simp add: Split_Nil)
next
  case (Cons c cs)
  obtain t ts where ts: "Split cs sep = t # ts"
    using Split_not_Nil [of cs sep] by (cases "Split cs sep") auto
  with Cons show ?case
    by (auto simp: Split_Cons Join_Cons_Cons)
qed

lemma Split_no_sep: "t \<in> set (Split s sep) \<Longrightarrow> sep \<notin> set t"
proof (induction s arbitrary: t)
  case Nil
  then show ?case by (simp add: Split_Nil)
next
  case (Cons c cs)
  obtain u us where us: "Split cs sep = u # us"
    using Split_not_Nil [of cs sep] by (cases "Split cs sep") auto
  with Cons show ?case
    by (auto simp: Split_Cons split: if_splits)
qed

lemma length_Split: "length (Split s sep) = Suc (count_list s sep)"
proof (induction s)
  case Nil
  show ?case by (simp add: Split_Nil)
next
  case (Cons c cs)
  with Split_not_Nil [of cs sep] show ?case
    by (cases "Split cs sep") (auto simp: Split_Cons)
qed

subsection \<open>The category tagger\<close>

lemma appendTrimmed_map: "appendTrimmed categories parts = categories @ map TrimSpace parts"
  by (induction parts arbitrary: categories) simp_all

lemma rowCategories_eq:
  "rowCategories mainCategory alternateCategory =
     (case mainCategory of None \<Rightarrow> [] | Some m \<Rightarrow> [m]) @
     (case alternateCategory of None \<Rightarrow> [] | Some a \<Rightarrow> map TrimSpace (Split a CHR ''|''))"
  by (simp add: rowCategories_def SplitSeq_def appendTrimmed_map split: option.splits)

text \<open>
  C7. The category list of a row is the main category, when the column is not null,
  followed by the pieces of the alternate categories between the pipes, each trimmed, in
  their order; empty pieces stay, nothing is lower-cased and nothing is removed as a
  duplicate. With both columns null the list is empty.
\<close>

theorem rowCategories_contract:
  "rowCategories mainCategory alternateCategory =
     (case mainCategory of None \<Rightarrow> [] | Some m \<Rightarrow> [m]) @
     (case alternateCategory of
        None \<Rightarrow> []
      | Some a \<Rightarrow> map TrimSpace (Split a CHR ''|'')) \<and>
   (\<forall>a. Join (Split a CHR ''|'') ''|'' = a \<and>
        (\<forall>piece\<in>set (Split a CHR ''|''). CHR ''|'' \<notin> set piece)) \<and>
   rowCategories (Some ''Cafe'') (Some ''Bakery| Dessert Shop '') =
     [''Cafe'', ''Bakery'', ''Dessert Shop''] \<and>
   rowCategories None None = [] \<and>
   rowCategories (Some ''a'') (Some ''a||B '') = [''a'', ''a'', '''', ''B'']"
proof -
  have "rowCategories (Some ''Cafe'') (Some ''Bakery| Dessert Shop '') =
          [''Cafe'', ''Bakery'', ''Dessert Shop'']"
    by code_simp
  moreover have "rowCategories (Some ''a'') (Some ''a||B '') = [''a'', ''a'', '''', ''B'']"
    by code_simp
  moreover have "rowCategories None None = []"
    by (simp add: rowCategories_def)
  ultimately show ?thesis
    using rowCategories_eq [of mainCategory alternateCategory]
    by (simp add: Join_Split Split_no_sep)
qed

theorem rowCategories_contract_witness:
  "rowCategories (Some ''Pub'') (Some ''Bar | Inn'') = [''Pub'', ''Bar'', ''Inn''] \<and>
   Join (Split ''Bar | Inn'' CHR ''|'') ''|'' = ''Bar | Inn'' \<and>
   ''Bar '' \<in> set (Split ''Bar | Inn'' CHR ''|'') \<and> CHR ''|'' \<notin> set ''Bar ''"
proof -
  have pieces: "map TrimSpace (Split ''Bar | Inn'' CHR ''|'') = [''Bar'', ''Inn'']"
    by code_simp
  have piece: "''Bar '' \<in> set (Split ''Bar | Inn'' CHR ''|'')"
    by code_simp
  show ?thesis
    using rowCategories_contract [of "Some ''Pub''" "Some ''Bar | Inn''"] pieces piece
    by simp
qed

subsection \<open>The category filter\<close>

lemma collectCategories_eq:
  "collectCategories u parts categories =
     (if \<exists>t\<in>set parts. TrimSpace t = [] then Inl ''category cannot be an empty string''
      else Inr (categories \<union> (\<lambda>t. ToLower u (TrimSpace t)) ` set parts))"
  by (induction parts arbitrary: categories) (auto simp: Let_def)

lemma parseCategories_eq:
  "parseCategories u categoriesStr =
     (if categoriesStr = [] then Inr None
      else if \<exists>t\<in>set (Split categoriesStr CHR '',''). TrimSpace t = []
      then Inl ''category cannot be an empty string''
      else Inr (Some ((\<lambda>t. ToLower u (TrimSpace t)) ` set (Split categoriesStr CHR '',''))))"
  by (simp add: parseCategories_def SplitSeq_def collectCategories_eq)

text \<open>
  C8. The empty parameter compiles to the nil map (match all). Any other parameter is cut
  at the commas and every piece is trimmed; if a trimmed piece is empty the compiler fails
  with the message \<^verbatim>\<open>category cannot be an empty string\<close>, otherwise it returns the
  set of the lower-cased trimmed pieces, in which equal pieces are one element.
\<close>

theorem parseCategories_contract:
  "parseCategories unicodeLower [] = Inr None \<and>
   (categoriesStr \<noteq> [] \<longrightarrow>
      parseCategories unicodeLower categoriesStr =
        (if \<exists>piece\<in>set (Split categoriesStr CHR '',''). TrimSpace piece = []
         then Inl ''category cannot be an empty string''
         else Inr (Some ((\<lambda>piece. ToLower unicodeLower (TrimSpace piece)) `
                           set (Split categoriesStr CHR '','')))) \<and>
      Join (Split categoriesStr CHR '','') '','' = categoriesStr \<and>
      (\<forall>piece\<in>set (Split categoriesStr CHR '',''). CHR '','' \<notin> set piece)) \<and>
   parseCategories unicodeLower ''A, b ,C'' = Inr (Some {''a'', ''b'', ''c''}) \<and>
   parseCategories unicodeLower ''a,,b'' = Inl ''category cannot be an empty string'' \<and>
   parseCategories unicodeLower ''a, B,a,b'' = Inr (Some {''a'', ''b''})"
proof -
  have "parseCategories unicodeLower ''A, b ,C'' = Inr (Some {''a'', ''b'', ''c''})"
    by code_simp
  moreover have "parseCategories unicodeLower ''a,,b'' = Inl ''category cannot be an empty string''"
    by code_simp
  moreover have "parseCategories unicodeLower ''a, B,a,b'' = Inr (Some {''a'', ''b''})"
    by code_simp
  ultimately show ?thesis
    using parseCategories_eq [of unicodeLower categoriesStr]
    by (simp add: parseCategories_eq [of unicodeLower "[]"] Join_Split Split_no_sep)
qed

theorem parseCategories_contract_witness:
  "''Pub, ,x'' \<noteq> [] \<and>
   parseCategories id ''Pub, ,x'' = Inl ''category cannot be an empty string'' \<and>
   ''Pub,inn'' \<noteq> [] \<and> parseCategories id ''Pub,inn'' = Inr (Some {''pub'', ''inn''})"
proof -
  have bad: "\<exists>piece\<in>set (Split ''Pub, ,x'' CHR '',''). TrimSpace piece = []"
    by code_simp
  have good: "\<not> (\<exists>piece\<in>set (Split ''Pub,inn'' CHR '',''). TrimSpace piece = [])"
    by code_simp
  have img: "(\<lambda>piece. ToLower id (TrimSpace piece)) ` set (Split ''Pub,inn'' CHR '','') =
               {''pub'', ''inn''}"
    by code_simp
  show ?thesis
    using parseCategories_contract [of id "''Pub, ,x''"]
          parseCategories_contract [of id "''Pub,inn''"] bad good img
    by simp
qed

subsection \<open>The bounding box\<close>

lemma fillBBox_eq:
  "i + length parts \<le> length bbox \<Longrightarrow>
   fillBBox ParseFloat i parts bbox =
     (case find (\<lambda>part. isl (ParseFloat (TrimSpace part))) parts of
        Some part \<Rightarrow>
          Inl (''invalid bbox value '' @ [CHR 0x27] @ part @ [CHR 0x27] @ '': not a valid float'')
      | None \<Rightarrow>
          Inr (take i bbox @ map (\<lambda>part. projr (ParseFloat (TrimSpace part))) parts @
               drop (i + length parts) bbox))"
proof (induction parts arbitrary: i bbox)
  case Nil
  then show ?case by simp
next
  case (Cons part rest)
  show ?case
  proof (cases "ParseFloat (TrimSpace part)")
    case (Inl err)
    then show ?thesis by simp
  next
    case (Inr val)
    from Cons.prems have len: "Suc i + length rest \<le> length (bbox[i := val])"
      by simp
    from Cons.prems have i: "i < length bbox" by simp
    have "take (Suc i) (bbox[i := val]) = take i bbox @ [val]"
      using i by (simp add: take_Suc_conv_app_nth)
    with Inr Cons.IH [OF len] show ?thesis
      by (simp split: option.splits)
  qed
qed

lemma parseBBox_eq:
  "parseBBox ParseFloat bboxStr =
     (if length (Split bboxStr CHR '','') \<noteq> 4
      then Inl ''bbox must have 4 comma-separated values''
      else case find (\<lambda>part. isl (ParseFloat (TrimSpace part))) (Split bboxStr CHR '','') of
             Some part \<Rightarrow>
               Inl (''invalid bbox value '' @ [CHR 0x27] @ part @ [CHR 0x27] @
                    '': not a valid float'')
           | None \<Rightarrow>
               Inr (map (\<lambda>part. projr (ParseFloat (TrimSpace part)))
                      (Split bboxStr CHR '','')))"
  by (simp add: parseBBox_def Let_def fillBBox_eq split: option.splits)

text \<open>
  C9. The parameter is cut at the commas. With a number of pieces other than four the
  parser fails. With four, every piece is trimmed and parsed as a number: the first piece
  that does not parse makes the parser fail with a message that quotes that piece, and
  otherwise the result is the four numbers in the order left, bottom, right, top, whatever
  their values (no range or ordering check). So \<^verbatim>\<open>1,2,3,4\<close> gives the box of the
  numbers that \<^verbatim>\<open>1\<close>, \<^verbatim>\<open>2\<close>, \<^verbatim>\<open>3\<close> and \<^verbatim>\<open>4\<close> parse to.
\<close>

theorem parseBBox_contract:
  "(ParseFloat ''1'' = Inr l \<and> ParseFloat ''2'' = Inr b \<and>
    ParseFloat ''3'' = Inr r \<and> ParseFloat ''4'' = Inr t \<longrightarrow>
      parseBBox ParseFloat ''1,2,3,4'' = Inr [l, b, r, t] \<and>
      [l, b, r, t] ! LEFT = l \<and> [l, b, r, t] ! BOTTOM = b \<and>
      [l, b, r, t] ! RIGHT = r \<and> [l, b, r, t] ! TOP = t) \<and>
   Join (Split bboxStr CHR '','') '','' = bboxStr \<and>
   length (Split bboxStr CHR '','') = Suc (count_list bboxStr CHR '','') \<and>
   (length (Split bboxStr CHR '','') \<noteq> 4 \<longrightarrow>
      parseBBox ParseFloat bboxStr = Inl ''bbox must have 4 comma-separated values'') \<and>
   (length (Split bboxStr CHR '','') = 4 \<longrightarrow>
      parseBBox ParseFloat bboxStr =
        (case find (\<lambda>part. isl (ParseFloat (TrimSpace part))) (Split bboxStr CHR '','') of
           Some part \<Rightarrow>
             Inl (''invalid bbox value '' @ [CHR 0x27] @ part @ [CHR 0x27] @
                  '': not a valid float'')
         | None \<Rightarrow>
             Inr (map (\<lambda>part. projr (ParseFloat (TrimSpace part)))
                    (Split bboxStr CHR '',''))))"
proof -
  have pieces: "Split ''1,2,3,4'' CHR '','' = [''1'', ''2'', ''3'', ''4'']"
    by code_simp
  have trimmed: "map TrimSpace [''1'', ''2'', ''3'', ''4''] = [''1'', ''2'', ''3'', ''4'']"
    by code_simp
  have example:
    "parseBBox ParseFloat ''1,2,3,4'' = Inr [l, b, r, t]"
    if "ParseFloat ''1'' = Inr l" "ParseFloat ''2'' = Inr b"
       "ParseFloat ''3'' = Inr r" "ParseFloat ''4'' = Inr t"
    using that trimmed by (simp add: parseBBox_eq pieces)
  show ?thesis
    using example
    by (simp add: parseBBox_eq [of ParseFloat bboxStr] Join_Split length_Split
        LEFT_def BOTTOM_def RIGHT_def TOP_def)
qed

theorem parseBBox_contract_witness:
  "parseBBox sampleParseFloat ''1,2,3,4'' = Inr [1, 2, 3, 4] \<and>
   parseBBox sampleParseFloat ''1,2,3'' = Inl ''bbox must have 4 comma-separated values'' \<and>
   parseBBox sampleParseFloat ''1, x,3,y'' =
     Inl (''invalid bbox value '' @ [CHR 0x27] @ '' x'' @ [CHR 0x27] @ '': not a valid float'') \<and>
   parseBBox sampleParseFloat ''4, 3 ,2,1'' = Inr [4, 3, 2, 1]"
proof -
  have nums: "sampleParseFloat ''1'' = Inr 1" "sampleParseFloat ''2'' = Inr 2"
    "sampleParseFloat ''3'' = Inr 3" "sampleParseFloat ''4'' = Inr 4"
    by (simp_all add: sampleParseFloat_def)
  have three: "length (Split ''1,2,3'' CHR '','') \<noteq> 4"
    by code_simp
  have four: "length (Split ''1, x,3,y'' CHR '','') = 4" "length (Split ''4, 3 ,2,1'' CHR '','') = 4"
    by code_simp+
  have offender:
    "find (\<lambda>part. isl (sampleParseFloat (TrimSpace part))) (Split ''1, x,3,y'' CHR '','') =
       Some '' x''"
    by code_simp
  have none:
    "find (\<lambda>part. isl (sampleParseFloat (TrimSpace part))) (Split ''4, 3 ,2,1'' CHR '','') = None"
    by code_simp
  have vals:
    "map (\<lambda>part. projr (sampleParseFloat (TrimSpace part))) (Split ''4, 3 ,2,1'' CHR '','') =
       [4, 3, 2, 1]"
    by code_simp
  show ?thesis
    using parseBBox_contract [of sampleParseFloat 1 2 3 4 "''1,2,3''"]
          parseBBox_contract [of sampleParseFloat 1 2 3 4 "''1, x,3,y''"]
          parseBBox_contract [of sampleParseFloat 1 2 3 4 "''4, 3 ,2,1''"]
          nums three four offender none vals
    by simp
qed

subsection \<open>The geometry decoder\<close>

lemma wkbPointToWKT_Inr_iff:
  "wkbPointToWKT Unmarshal Marshal geomBytes = Inr wktString \<longleftrightarrow>
     8 \<le> length geomBytes \<and>
     (\<exists>point. Unmarshal (drop 8 geomBytes) = Inr (Point point) \<and> Marshal point = Inr wktString)"
  by (auto simp: wkbPointToWKT_def Let_def split: sum.splits geom_T.splits)

text \<open>
  C6. A blob of fewer than eight bytes is refused as too short. Otherwise the bytes behind
  the first eight go to the parser of the geometry library: if that fails the decoder
  fails with the parser's error, and if it returns a geometry that is not a point the
  decoder fails with another message, which ends in the name of the geometry's type. The
  three messages differ from each other. The decoder succeeds only when the blob has
  eight bytes or more, the rest parses to a point and that point is rendered as text; its
  result is then that text.
\<close>

theorem wkbPointToWKT_contract:
  "(length geomBytes < 8 \<longrightarrow>
      wkbPointToWKT Unmarshal Marshal geomBytes =
        Inl ''input byte slice is too short to contain a GeoPackage header and WKB data'') \<and>
   (8 \<le> length geomBytes \<and> Unmarshal (drop 8 geomBytes) = Inl err \<longrightarrow>
      wkbPointToWKT Unmarshal Marshal geomBytes = Inl (''error unmarshaling WKB: '' @ err)) \<and>
   (8 \<le> length geomBytes \<and> Unmarshal (drop 8 geomBytes) = Inr (NotPoint name) \<longrightarrow>
      wkbPointToWKT Unmarshal Marshal geomBytes =
        Inl (''decoded geometry is not a Point, but a '' @ name)) \<and>
   ''decoded geometry is not a Point, but a '' @ name \<noteq> ''error unmarshaling WKB: '' @ err \<and>
   ''decoded geometry is not a Point, but a '' @ name \<noteq>
     ''input byte slice is too short to contain a GeoPackage header and WKB data'' \<and>
   ''error unmarshaling WKB: '' @ err \<noteq>
     ''input byte slice is too short to contain a GeoPackage header and WKB data'' \<and>
   (wkbPointToWKT Unmarshal Marshal geomBytes = Inr wktString \<longleftrightarrow>
      8 \<le> length geomBytes \<and>
      (\<exists>point. Unmarshal (drop 8 geomBytes) = Inr (Point point) \<and>
               Marshal point = Inr wktString))"
  using wkbPointToWKT_Inr_iff [of Unmarshal Marshal geomBytes wktString]
  by (simp add: wkbPointToWKT_def)

theorem wkbPointToWKT_contract_witness:
  "wkbPointToWKT sampleUnmarshal sampleMarshal [0x47, 0x50, 0x00] =
     Inl ''input byte slice is too short to contain a GeoPackage header and WKB data'' \<and>
   wkbPointToWKT sampleUnmarshal sampleMarshal (take 8 sampleBlob @ [0x01, 0x01]) =
     Inl ''error unmarshaling WKB: unexpected EOF'' \<and>
   wkbPointToWKT sampleUnmarshal sampleMarshal
       (take 8 sampleBlob @ [0x01, 0x02, 0x00, 0x00, 0x00, 0x00, 0x00, 0x00, 0x00]) =
     Inl ''decoded geometry is not a Point, but a *geom.LineString'' \<and>
   wkbPointToWKT sampleUnmarshal sampleMarshal sampleBlob = Inr ''POINT (-0.12 51.5)''"
proof -
  have short: "length [0x47, 0x50, 0x00 :: 8 word] < 8"
    by simp
  have long: "8 \<le> length (take 8 sampleBlob @ [0x01, 0x01])"
    "8 \<le> length (take 8 sampleBlob @ [0x01, 0x02, 0x00, 0x00, 0x00, 0x00, 0x00, 0x00, 0x00])"
    "8 \<le> length sampleBlob"
    by (simp_all add: sampleBlob_def)
  have garbage: "sampleUnmarshal (drop 8 (take 8 sampleBlob @ [0x01, 0x01])) = Inl ''unexpected EOF''"
    by (simp add: sampleUnmarshal_def sampleBlob_def)
  have line:
    "sampleUnmarshal
       (drop 8 (take 8 sampleBlob @ [0x01, 0x02, 0x00, 0x00, 0x00, 0x00, 0x00, 0x00, 0x00])) =
     Inr (NotPoint ''*geom.LineString'')"
    by (simp add: sampleUnmarshal_def sampleBlob_def)
  have point: "sampleUnmarshal (drop 8 sampleBlob) = Inr (Point (- 0.12, 51.5))"
    "sampleMarshal (- 0.12, 51.5) = Inr ''POINT (-0.12 51.5)''"
    by (simp_all add: sampleUnmarshal_def sampleMarshal_def)
  show ?thesis
    using wkbPointToWKT_contract [of "[0x47, 0x50, 0x00]" sampleUnmarshal sampleMarshal]
          wkbPointToWKT_contract [of "take 8 sampleBlob @ [0x01, 0x01]" sampleUnmarshal
            sampleMarshal "''unexpected EOF''"]
          wkbPointToWKT_contract [of
            "take 8 sampleBlob @ [0x01, 0x02, 0x00, 0x00, 0x00, 0x00, 0x00, 0x00, 0x00]"
            sampleUnmarshal sampleMarshal _ "''*geom.LineString''"]
          wkbPointToWKT_contract [of sampleBlob sampleUnmarshal sampleMarshal _ _
            "''POINT (-0.12 51.5)''"]
          short long garbage line point
    by simp
qed

subsection \<open>The round trip of a point\<close>

lemma length_leBytes: "length (leBytes n w) = n"
  by (induction n arbitrary: w) simp_all

lemma leWord_leBytes: "leWord (leBytes n w) = take_bit (8 * n) w"
proof (induction n arbitrary: w)
  case 0
  show ?case by simp
next
  case (Suc n)
  show ?case
    by (rule bit_word_eqI) (auto simp: Suc bit_simps)
qed

lemma length_putWord: "length (putWord littleEndian n w) = n"
  by (simp add: putWord_def length_leBytes)

lemma getWord_putWord_64: "getWord littleEndian (putWord littleEndian 8 w) = (w :: 64 word)"
  by (simp add: getWord_def putWord_def leWord_leBytes take_bit_word_eq_self)

lemma getWord_putWord_type: "getWord littleEndian (putWord littleEndian 4 (1 :: 32 word)) = (1 :: 32 word)"
  by (simp add: getWord_def putWord_def leWord_leBytes take_bit_word_eq_self)

lemma wkbUnmarshal_wkbPoint:
  "\<not> isNaN lon \<Longrightarrow> \<not> isNaN lat \<Longrightarrow>
   wkbUnmarshal otherwise (wkbPoint littleEndian lon lat) = Inr (Point (lon, lat))"
proof -
  assume nan: "\<not> isNaN lon" "\<not> isNaN lat"
  let ?t = "putWord littleEndian 4 (1 :: 32 word)"
  let ?x = "putWord littleEndian 8 lon"
  let ?y = "putWord littleEndian 8 lat"
  let ?p = "wkbPoint littleEndian lon lat"
  have p: "?p = (if littleEndian then 1 else 0) # ?t @ ?x @ ?y"
    by (simp add: wkbPoint_def)
  have len: "length ?p = 21" and order: "?p ! 0 = (if littleEndian then 1 else 0)"
    by (simp_all add: p length_putWord)
  have t: "take 4 (drop 1 ?p) = ?t"
    by (simp add: p length_putWord)
  have x: "take 8 (drop 5 ?p) = ?x"
    by (simp add: p length_putWord)
  have y: "take 8 (drop 13 ?p) = ?y"
    by (simp add: p length_putWord)
  show ?thesis
    unfolding wkbUnmarshal_def t x y len order
    using nan by (simp add: getWord_putWord_64 getWord_putWord_type)
qed

text \<open>
  C5. The decoder hands the bytes behind the first eight to the parser and returns the
  text the writer makes of the point: if the parser returns a point and the writer a
  text, that text is the result. With the parser and the writer of the point payload as
  modelled above, a blob of an eight-byte header followed by the payload of the
  coordinates (lon, lat), in either byte order, decodes to the text \<^verbatim>\<open>POINT\<close>,
  parenthesis, lon, space, lat, parenthesis, with the coordinates that were encoded,
  longitude first.
\<close>

theorem wkbPointToWKT_roundtrip:
  assumes "length header = 8" and "\<not> isNaN lon" and "\<not> isNaN lat"
  shows "(Unmarshal payload = Inr (Point point) \<and> Marshal point = Inr wktString \<longrightarrow>
            wkbPointToWKT Unmarshal Marshal (header @ payload) = Inr wktString) \<and>
         wkbPointToWKT (wkbUnmarshal otherwise) (wktMarshal gap FormatFloat)
             (header @ wkbPoint littleEndian lon lat) =
           Inr (''POINT'' @ gap @ ''('' @ FormatFloat lon @ '' '' @ FormatFloat lat @ '')'')"
  using assms wkbUnmarshal_wkbPoint [of lon lat otherwise littleEndian]
  by (simp add: wkbPointToWKT_def wktMarshal_def)

theorem wkbPointToWKT_roundtrip_witness:
  "wkbPointToWKT (wkbUnmarshal sampleOtherwise) (wktMarshal '' '' sampleFormatFloat) sampleBlob =
     Inr ''POINT (-0.12 51.5)'' \<and>
   wkbPointToWKT (wkbUnmarshal sampleOtherwise) (wktMarshal [] sampleFormatFloat)
       (take 8 sampleBlob @
        [0x00, 0x00, 0x00, 0x00, 0x01,
         0x3F, 0xF0, 0x00, 0x00, 0x00, 0x00, 0x00, 0x00,
         0x40, 0x00, 0x00, 0x00, 0x00, 0x00, 0x00, 0x00]) =
     Inr ''POINT(1 2)'' \<and>
   wkbPointToWKT sampleUnmarshal sampleMarshal sampleBlob = Inr ''POINT (-0.12 51.5)''"
proof -
  have header: "length (take 8 sampleBlob) = 8"
    by (simp add: sampleBlob_def)
  have little: "take 8 sampleBlob @ wkbPoint True 0xBFBEB851EB851EB8 0x4049C00000000000 = sampleBlob"
    by code_simp
  have big: "wkbPoint False 0x3FF0000000000000 0x4000000000000000 =
               [0x00, 0x00, 0x00, 0x00, 0x01,
                0x3F, 0xF0, 0x00, 0x00, 0x00, 0x00, 0x00, 0x00,
                0x40, 0x00, 0x00, 0x00, 0x00, 0x00, 0x00, 0x00]"
    by code_simp
  have numbers: "\<not> isNaN 0xBFBEB851EB851EB8" "\<not> isNaN 0x4049C00000000000"
    "\<not> isNaN 0x3FF0000000000000" "\<not> isNaN 0x4000000000000000"
    by code_simp+
  have texts: "sampleFormatFloat 0xBFBEB851EB851EB8 = ''-0.12''"
    "sampleFormatFloat 0x4049C00000000000 = ''51.5''"
    "sampleFormatFloat 0x3FF0000000000000 = ''1''"
    "sampleFormatFloat 0x4000000000000000 = ''2''"
    by (simp_all add: sampleFormatFloat_def)
  have lib: "sampleUnmarshal (drop 8 sampleBlob) = Inr (Point (- 0.12, 51.5))"
    "sampleMarshal (- 0.12, 51.5) = Inr ''POINT (-0.12 51.5)''"
    by (simp_all add: sampleUnmarshal_def sampleMarshal_def)
  have split: "take 8 sampleBlob @ drop 8 sampleBlob = sampleBlob"
    by simp
  show ?thesis
    using wkbPointToWKT_roundtrip [OF header numbers(1,2), of sampleUnmarshal
            "drop 8 sampleBlob" "(- 0.12, 51.5)" sampleMarshal "''POINT (-0.12 51.5)''"
            sampleOtherwise "'' ''" sampleFormatFloat True]
          wkbPointToWKT_roundtrip [OF header numbers(3,4), of sampleUnmarshal
            "drop 8 sampleBlob" "(- 0.12, 51.5)" sampleMarshal "''POINT (-0.12 51.5)''"
            sampleOtherwise "[]" sampleFormatFloat False]
          little big texts lib split
    by simp
qed

subsection \<open>The search handler\<close>

lemma hasCategoryMatch_iff:
  "hasCategoryMatch items categories \<longleftrightarrow> (\<exists>item\<in>set items. exists_key categories item)"
  by (induction items) auto

lemma elems_append_slice: "elems (append_slice results x) = elems results @ [x]"
  by (cases results) (simp_all add: elems_def)

lemma elems_foldl_append_slice:
  "elems (foldl append_slice results xs) = elems results @ xs"
  by (induction xs arbitrary: results) (simp_all add: elems_append_slice)

lemma foldl_append_slice_Some: "foldl append_slice (Some ys) zs = Some (ys @ zs)"
  by (induction zs arbitrary: ys) simp_all

lemma foldl_append_slice_None:
  "foldl append_slice None xs = (if xs = [] then None else Some xs)"
  by (cases xs) (simp_all add: foldl_append_slice_Some)

lemma scanRows_all_decode:
  "\<forall>row\<in>set rows. \<not> isl (wkbPointToWKT Unmarshal Marshal (col_geom row)) \<Longrightarrow>
   scanRows Unmarshal Marshal categories (map Scanned rows) results =
     Inr (foldl append_slice results
            (filter (\<lambda>poi. len_map categories = 0 \<or> hasCategoryMatch (Categories poi) categories)
               (map (decodedPOI Unmarshal Marshal) rows)))"
proof (induction rows arbitrary: results)
  case Nil
  show ?case by simp
next
  case (Cons row rows)
  then obtain wktString where w: "wkbPointToWKT Unmarshal Marshal (col_geom row) = Inr wktString"
    by (cases "wkbPointToWKT Unmarshal Marshal (col_geom row)") auto
  from Cons.prems have rest: "\<forall>row\<in>set rows. \<not> isl (wkbPointToWKT Unmarshal Marshal (col_geom row))"
    by simp
  show ?case
    using w Cons.IH [OF rest] by (simp add: decodedPOI_def Let_def)
qed

lemma scanRows_first_failure:
  "\<forall>row\<in>set before. \<not> isl (wkbPointToWKT Unmarshal Marshal (col_geom row)) \<Longrightarrow>
   wkbPointToWKT Unmarshal Marshal (col_geom row) = Inl err \<Longrightarrow>
   scanRows Unmarshal Marshal categories (map Scanned before @ Scanned row # after) results =
     Inl (''error converting WKB to WKT: '' @ err)"
proof (induction before arbitrary: results)
  case Nil
  then show ?case by simp
next
  case (Cons r before)
  then obtain wktString where w: "wkbPointToWKT Unmarshal Marshal (col_geom r) = Inr wktString"
    by (cases "wkbPointToWKT Unmarshal Marshal (col_geom r)") auto
  from Cons.prems have rest: "\<forall>row\<in>set before. \<not> isl (wkbPointToWKT Unmarshal Marshal (col_geom row))"
    by simp
  show ?case
    using w Cons.IH [OF rest Cons.prems(2)] by (simp add: Let_def)
qed

lemma scanRows_any_failure:
  "Scanned row \<in> set events \<Longrightarrow> isl (wkbPointToWKT Unmarshal Marshal (col_geom row)) \<Longrightarrow>
   isl (scanRows Unmarshal Marshal categories events results)"
proof (induction events arbitrary: results)
  case Nil
  then show ?case by simp
next
  case (Cons ev events)
  show ?case
  proof (cases ev)
    case (ScanError e)
    then show ?thesis by simp
  next
    case (Scanned r)
    show ?thesis
    proof (cases "wkbPointToWKT Unmarshal Marshal (col_geom r)")
      case (Inl e)
      with Scanned show ?thesis by simp
    next
      case (Inr wktString)
      with Scanned Cons.prems have "Scanned row \<in> set events"
        by auto
      from Cons.IH [OF this Cons.prems(2)] Scanned Inr show ?thesis
        by (simp add: Let_def)
    qed
  qed
qed

lemma scanRows_Inr_scanned:
  "scanRows Unmarshal Marshal categories events results = Inr res \<Longrightarrow>
   \<exists>rows. events = map Scanned rows \<and>
          (\<forall>row\<in>set rows. \<not> isl (wkbPointToWKT Unmarshal Marshal (col_geom row)))"
proof (induction events arbitrary: results)
  case Nil
  then show ?case by simp
next
  case (Cons ev events)
  show ?case
  proof (cases ev)
    case (ScanError e)
    with Cons.prems show ?thesis by simp
  next
    case (Scanned r)
    show ?thesis
    proof (cases "wkbPointToWKT Unmarshal Marshal (col_geom r)")
      case (Inl e)
      with Scanned Cons.prems show ?thesis by simp
    next
      case (Inr wktString)
      with Scanned Cons.prems obtain results' where
        "scanRows Unmarshal Marshal categories events results' = Inr res"
        by (auto simp: Let_def split: if_splits)
      from Cons.IH [OF this] obtain rows where
        rows: "events = map Scanned rows"
          "\<forall>row\<in>set rows. \<not> isl (wkbPointToWKT Unmarshal Marshal (col_geom row))"
        by blast
      show ?thesis
        by (rule exI [of _ "r # rows"]) (use Scanned rows Inr in simp)
    qed
  qed
qed

lemma parseCategories_len:
  "parseCategories unicodeLower categoriesStr = Inr categories \<Longrightarrow>
   (len_map categories = 0 \<longleftrightarrow> categories = None) \<and> (categories = None \<longleftrightarrow> categoriesStr = [])"
proof -
  assume ok: "parseCategories unicodeLower categoriesStr = Inr categories"
  show ?thesis
  proof (cases "categoriesStr = []")
    case True
    with ok show ?thesis by (auto simp: parseCategories_eq len_map_def)
  next
    case False
    let ?keys = "(\<lambda>t. ToLower unicodeLower (TrimSpace t)) ` set (Split categoriesStr CHR '','')"
    from ok False have cats: "categories = Some ?keys"
      by (auto simp: parseCategories_eq split: if_splits)
    have "finite ?keys" by simp
    moreover have "?keys \<noteq> {}"
      using Split_not_Nil [of categoriesStr "CHR '',''"] by simp
    ultimately have "card ?keys \<noteq> 0" by simp
    with cats False show ?thesis by (simp add: len_map_def)
  qed
qed

lemma elems_None: "elems None = []"
  by (simp add: elems_def)

lemma Search_all_decode:
  assumes "parseBBox ParseFloat bboxParam = Inr bbox"
    and "parseCategories unicodeLower categoriesParam = Inr categories"
    and "Query (bbox ! BOTTOM) (bbox ! TOP) (bbox ! LEFT) (bbox ! RIGHT) =
           Inr \<lparr> scans = map Scanned rows, rowsErr = None \<rparr>"
    and "\<forall>row\<in>set rows. \<not> isl (wkbPointToWKT Unmarshal Marshal (col_geom row))"
  shows "Search ParseFloat unicodeLower Unmarshal Marshal Query bboxParam categoriesParam =
           Outcome [] (JSON StatusOK (Response (foldl append_slice None
             (filter (\<lambda>poi. categories = None \<or>
                            (\<exists>tag\<in>set (Categories poi). exists_key categories tag))
                (map (decodedPOI Unmarshal Marshal) rows)))))"
proof -
  let ?kept = "filter (\<lambda>poi. len_map categories = 0 \<or> hasCategoryMatch (Categories poi) categories)
                 (map (decodedPOI Unmarshal Marshal) rows)"
  have loop: "scanRows Unmarshal Marshal categories (map Scanned rows) None =
                Inr (foldl append_slice None ?kept)"
    using assms(4) by (rule scanRows_all_decode)
  have search: "Search ParseFloat unicodeLower Unmarshal Marshal Query bboxParam categoriesParam =
                  Outcome [] (JSON StatusOK (Response (foldl append_slice None ?kept)))"
    using assms(1-3) loop by (simp add: Search_def)
  have "len_map categories = 0 \<longleftrightarrow> categories = None"
    using parseCategories_len [OF assms(2)] by simp
  with search show ?thesis
    by (simp add: hasCategoryMatch_iff)
qed

text \<open>
  C2. When the box and the filter validate, the query succeeds, every row is scanned and
  every blob decodes, the reply is 200 and its results are the POIs of those rows for
  which the filter is the nil map (match all) or some category of the POI is a key of the
  filter, in the order in which the cursor delivered the rows. Nothing is logged.
\<close>

theorem Search_filters_in_order:
  assumes "parseBBox ParseFloat bboxParam = Inr bbox"
    and "parseCategories unicodeLower categoriesParam = Inr categories"
    and "Query (bbox ! BOTTOM) (bbox ! TOP) (bbox ! LEFT) (bbox ! RIGHT) =
           Inr \<lparr> scans = map Scanned rows, rowsErr = None \<rparr>"
    and "\<forall>row\<in>set rows. \<not> isl (wkbPointToWKT Unmarshal Marshal (col_geom row))"
  shows "\<exists>results.
           Search ParseFloat unicodeLower Unmarshal Marshal Query bboxParam categoriesParam =
             Outcome [] (JSON StatusOK (Response results)) \<and>
           elems results =
             filter (\<lambda>poi. categories = None \<or>
                           (\<exists>tag\<in>set (Categories poi). exists_key categories tag))
               (map (decodedPOI Unmarshal Marshal) rows)"
  using Search_all_decode [where Query = Query, OF assms] by (simp add: elems_foldl_append_slice elems_None)

theorem Search_filters_in_order_witness:
  "Search sampleParseFloat id sampleUnmarshal sampleMarshal (selectWithin sampleTable)
     ''-1,51,1,52'' ''cafe'' =
   Outcome [] (JSON StatusOK
     (Response (Some [decodedPOI sampleUnmarshal sampleMarshal (sampleTable ! 1)])))"
proof -
  have bbox: "parseBBox sampleParseFloat ''-1,51,1,52'' = Inr [- 1, 51, 1, 52]"
    by code_simp
  have cats: "parseCategories id ''cafe'' = Inr (Some {''cafe''})"
    by code_simp
  have query:
    "selectWithin sampleTable ([- 1, 51, 1, 52] ! BOTTOM) ([- 1, 51, 1, 52] ! TOP)
       ([- 1, 51, 1, 52] ! LEFT) ([- 1, 51, 1, 52] ! RIGHT) =
     Inr \<lparr> scans = map Scanned sampleTable, rowsErr = None \<rparr>"
    by (simp add: selectWithin_def sampleTable_def sampleRow_def
        LEFT_def BOTTOM_def RIGHT_def TOP_def)
  have decode:
    "\<forall>row\<in>set sampleTable. \<not> isl (wkbPointToWKT sampleUnmarshal sampleMarshal (col_geom row))"
    by code_simp
  have kept:
    "filter (\<lambda>poi. Some {''cafe''} = None \<or>
                   (\<exists>tag\<in>set (Categories poi). exists_key (Some {''cafe''}) tag))
       (map (decodedPOI sampleUnmarshal sampleMarshal) sampleTable) =
     [decodedPOI sampleUnmarshal sampleMarshal (sampleTable ! 1)]"
    by code_simp
  from Search_filters_in_order [where Query = "selectWithin sampleTable"
      and Unmarshal = sampleUnmarshal and Marshal = sampleMarshal, OF bbox cats query decode] kept
  obtain results where
    "Search sampleParseFloat id sampleUnmarshal sampleMarshal (selectWithin sampleTable)
       ''-1,51,1,52'' ''cafe'' = Outcome [] (JSON StatusOK (Response results))"
    "elems results = [decodedPOI sampleUnmarshal sampleMarshal (sampleTable ! 1)]"
    by auto
  then show ?thesis
    by (cases results) (simp_all add: elems_def)
qed

text \<open>
  C3. When the box and the filter validate and the query succeeds, a row of the cursor
  whose blob does not decode makes the reply the 500 one with the generic message, which
  carries no results, whatever the other rows are. If the rows before it were scanned and
  decoded, the only line logged is the decode error of that row: the rows behind it are
  not looked at.
\<close>

theorem Search_decode_failure:
  assumes "parseBBox ParseFloat bboxParam = Inr bbox"
    and "parseCategories unicodeLower categoriesParam = Inr categories"
    and "Query (bbox ! BOTTOM) (bbox ! TOP) (bbox ! LEFT) (bbox ! RIGHT) = Inr rows"
    and "wkbPointToWKT Unmarshal Marshal (col_geom row) = Inl err"
  shows "(Scanned row \<in> set (scans rows) \<longrightarrow>
            reply (Search ParseFloat unicodeLower Unmarshal Marshal Query bboxParam
                     categoriesParam) =
              JSON StatusInternalServerError (H_error ''An internal server error occurred'')) \<and>
         (scans rows = map Scanned before @ Scanned row # after \<and>
          (\<forall>r\<in>set before. \<not> isl (wkbPointToWKT Unmarshal Marshal (col_geom r))) \<longrightarrow>
            Search ParseFloat unicodeLower Unmarshal Marshal Query bboxParam categoriesParam =
              Outcome [''error converting WKB to WKT: '' @ err]
                (JSON StatusInternalServerError (H_error ''An internal server error occurred'')))"
proof (intro conjI impI)
  assume "Scanned row \<in> set (scans rows)"
  then have "isl (scanRows Unmarshal Marshal categories (scans rows) None)"
    using scanRows_any_failure [of row "scans rows" Unmarshal Marshal categories None] assms(4)
    by simp
  then obtain line where "scanRows Unmarshal Marshal categories (scans rows) None = Inl line"
    by (cases "scanRows Unmarshal Marshal categories (scans rows) None") auto
  with assms(1-3)
  show "reply (Search ParseFloat unicodeLower Unmarshal Marshal Query bboxParam categoriesParam) =
          JSON StatusInternalServerError (H_error ''An internal server error occurred'')"
    by (simp add: Search_def internalError_def)
next
  assume "scans rows = map Scanned before @ Scanned row # after \<and>
          (\<forall>r\<in>set before. \<not> isl (wkbPointToWKT Unmarshal Marshal (col_geom r)))"
  then have "scanRows Unmarshal Marshal categories (scans rows) None =
               Inl (''error converting WKB to WKT: '' @ err)"
    using scanRows_first_failure [of before Unmarshal Marshal row err categories after None]
      assms(4) by simp
  with assms(1-3)
  show "Search ParseFloat unicodeLower Unmarshal Marshal Query bboxParam categoriesParam =
          Outcome [''error converting WKB to WKT: '' @ err]
            (JSON StatusInternalServerError (H_error ''An internal server error occurred''))"
    by (simp add: Search_def internalError_def)
qed

theorem Search_decode_failure_witness:
  "Search sampleParseFloat id sampleUnmarshal sampleMarshal
     (selectWithin [sampleRow, sampleRow\<lparr> col_geom := take 3 sampleBlob \<rparr>, sampleRow])
     ''-1,51,1,52'' [] =
   Outcome [''error converting WKB to WKT: '' @
            ''input byte slice is too short to contain a GeoPackage header and WKB data'']
     (JSON StatusInternalServerError (H_error ''An internal server error occurred''))"
proof -
  let ?bad = "sampleRow\<lparr> col_geom := take 3 sampleBlob \<rparr>"
  let ?rows = "\<lparr> scans = [Scanned sampleRow, Scanned ?bad, Scanned sampleRow], rowsErr = None \<rparr>"
  have bbox: "parseBBox sampleParseFloat ''-1,51,1,52'' = Inr [- 1, 51, 1, 52]"
    by code_simp
  have cats: "parseCategories id [] = Inr None"
    by code_simp
  have query:
    "selectWithin [sampleRow, ?bad, sampleRow] ([- 1, 51, 1, 52] ! BOTTOM)
       ([- 1, 51, 1, 52] ! TOP) ([- 1, 51, 1, 52] ! LEFT) ([- 1, 51, 1, 52] ! RIGHT) = Inr ?rows"
    by (simp add: selectWithin_def sampleRow_def LEFT_def BOTTOM_def RIGHT_def TOP_def)
  have bad: "wkbPointToWKT sampleUnmarshal sampleMarshal (col_geom ?bad) =
               Inl ''input byte slice is too short to contain a GeoPackage header and WKB data''"
    by code_simp
  have before: "\<forall>r\<in>set [sampleRow]. \<not> isl (wkbPointToWKT sampleUnmarshal sampleMarshal (col_geom r))"
    by code_simp
  have shape: "scans ?rows = map Scanned [sampleRow] @ Scanned ?bad # [Scanned sampleRow]"
    by simp
  show ?thesis
    using Search_decode_failure [where Query = "selectWithin [sampleRow, ?bad, sampleRow]"
        and before = "[sampleRow]" and after = "[Scanned sampleRow]", OF bbox cats query bad]
      before shape
    by simp
qed

subsection \<open>Matching is literal\<close>

lemma lowerASCII_not_upper: "\<not> isUpperASCII (lowerASCII c)"
proof (cases "isUpperASCII c")
  case True
  then have "of_char c + (32::nat) < 256" and "90 < of_char c + (32::nat)"
    by (simp_all add: isUpperASCII_def)
  then show ?thesis
    using True by (simp add: lowerASCII_def isUpperASCII_def)
next
  case False
  then show ?thesis by (simp add: lowerASCII_def)
qed

lemma ToLower_not_upper:
  "\<forall>s. \<not> isASCII s \<longrightarrow> \<not> hasUpperASCII (unicodeLower s) \<Longrightarrow> \<not> hasUpperASCII (ToLower unicodeLower s)"
  by (auto simp: ToLower_def hasUpperASCII_def list_ex_iff lowerASCII_not_upper)

lemma Search_OK_results:
  assumes "Search ParseFloat unicodeLower Unmarshal Marshal Query bboxParam categoriesParam =
             Outcome lines (JSON StatusOK (Response results))"
    and "parseCategories unicodeLower categoriesParam = Inr categories"
  shows "\<forall>poi\<in>set (elems results).
           len_map categories = 0 \<or> hasCategoryMatch (Categories poi) categories"
proof -
  from assms have "\<exists>events. scanRows Unmarshal Marshal categories events None = Inr results"
    by (auto simp: Search_def internalError_def StatusOK_def StatusBadRequest_def
        StatusInternalServerError_def split: sum.splits option.splits)
  then obtain events where
    loop: "scanRows Unmarshal Marshal categories events None = Inr results"
    by blast
  from scanRows_Inr_scanned [OF loop] obtain rs where
    rs: "events = map Scanned rs"
      "\<forall>row\<in>set rs. \<not> isl (wkbPointToWKT Unmarshal Marshal (col_geom row))"
    by blast
  from scanRows_all_decode [OF rs(2), of categories None] loop rs(1)
  have "results = foldl append_slice None
          (filter (\<lambda>poi. len_map categories = 0 \<or> hasCategoryMatch (Categories poi) categories)
             (map (decodedPOI Unmarshal Marshal) rs))"
    by simp
  then show ?thesis
    by (simp add: elems_foldl_append_slice elems_None)
qed

lemma ToLower_keys_fixed:
  assumes "parseCategories unicodeLower categoriesParam = Inr (Some keys)"
    and "\<forall>s. ToLower unicodeLower (ToLower unicodeLower s) = ToLower unicodeLower s"
  shows "\<forall>key\<in>keys. ToLower unicodeLower key = key"
proof -
  have "keys = (\<lambda>piece. ToLower unicodeLower (TrimSpace piece)) `
                 set (Split categoriesParam CHR '','')"
    using assms(1) by (auto simp: parseCategories_eq split: if_splits)
  with assms(2) show ?thesis by auto
qed

text \<open>
  C10, as the code has it. A supplied filter is the set of the lower-cased trimmed pieces
  of the parameter, and a list of categories matches it exactly when one of its strings,
  as it stands, is an element of that set. No key of the filter contains one of the
  letters \<^verbatim>\<open>A\<close> to \<^verbatim>\<open>Z\<close> (provided the lower-casing of strings with non-ASCII
  bytes, which the model takes as a parameter, produces none). So a list of categories
  each of which contains such a letter never matches, and every POI in the results of a
  search with a filter has a category without such a letter. More generally, when
  lower-casing a lower-cased string changes nothing, every key is its own lower-case
  form, and a list of categories each of which lower-casing changes never matches.
\<close>

theorem category_match_is_literal:
  assumes "parseCategories unicodeLower categoriesParam = Inr (Some keys)"
    and "\<forall>s. \<not> isASCII s \<longrightarrow> \<not> hasUpperASCII (unicodeLower s)"
  shows "(hasCategoryMatch tags (Some keys) \<longleftrightarrow> (\<exists>tag\<in>set tags. tag \<in> keys)) \<and>
         keys = (\<lambda>piece. ToLower unicodeLower (TrimSpace piece)) `
                  set (Split categoriesParam CHR '','') \<and>
         (\<forall>key\<in>keys. \<not> hasUpperASCII key) \<and>
         ((\<forall>tag\<in>set tags. hasUpperASCII tag) \<longrightarrow> \<not> hasCategoryMatch tags (Some keys)) \<and>
         (Search ParseFloat unicodeLower Unmarshal Marshal Query bboxParam categoriesParam =
            Outcome lines (JSON StatusOK (Response results)) \<longrightarrow>
          (\<forall>poi\<in>set (elems results). \<exists>tag\<in>set (Categories poi). \<not> hasUpperASCII tag)) \<and>
         ((\<forall>s. ToLower unicodeLower (ToLower unicodeLower s) = ToLower unicodeLower s) \<longrightarrow>
          (\<forall>tag\<in>set tags. ToLower unicodeLower tag \<noteq> tag) \<longrightarrow>
          \<not> hasCategoryMatch tags (Some keys))"
proof -
  have match: "hasCategoryMatch ts (Some keys) \<longleftrightarrow> (\<exists>tag\<in>set ts. tag \<in> keys)" for ts
    by (simp add: hasCategoryMatch_iff exists_key_def)
  have keys: "keys = (\<lambda>piece. ToLower unicodeLower (TrimSpace piece)) `
                       set (Split categoriesParam CHR '','')"
    using assms(1) by (auto simp: parseCategories_eq split: if_splits)
  have lower: "\<forall>key\<in>keys. \<not> hasUpperASCII key"
    using ToLower_not_upper [OF assms(2)] by (subst keys) blast
  have never: "(\<forall>tag\<in>set tags. hasUpperASCII tag) \<longrightarrow> \<not> hasCategoryMatch tags (Some keys)"
    using lower by (auto simp: match)
  have len: "len_map (Some keys) \<noteq> 0"
    using parseCategories_len [OF assms(1)] by simp
  have results: "\<forall>poi\<in>set (elems results). \<exists>tag\<in>set (Categories poi). \<not> hasUpperASCII tag"
    if "Search ParseFloat unicodeLower Unmarshal Marshal Query bboxParam categoriesParam =
          Outcome lines (JSON StatusOK (Response results))"
    using Search_OK_results [OF that assms(1)] len lower by (auto simp: match)
  have changed: "\<not> hasCategoryMatch tags (Some keys)"
    if "\<forall>s. ToLower unicodeLower (ToLower unicodeLower s) = ToLower unicodeLower s"
      and "\<forall>tag\<in>set tags. ToLower unicodeLower tag \<noteq> tag"
    using ToLower_keys_fixed [OF assms(1) that(1)] that(2) by (auto simp: match)
  from match [of tags] keys lower never results changed show ?thesis
    by blast
qed

theorem category_match_is_literal_witness:
  "parseCategories (map lowerASCII) ''Cafe, ZOO'' = Inr (Some {''cafe'', ''zoo''}) \<and>
   hasUpperASCII ''Cafe'' \<and> hasUpperASCII ''Bakery'' \<and>
   ToLower (map lowerASCII) ''Cafe'' \<noteq> ''Cafe'' \<and>
   ToLower (map lowerASCII) ''Bakery'' \<noteq> ''Bakery'' \<and>
   \<not> hasCategoryMatch [''Cafe'', ''Bakery''] (Some {''cafe'', ''zoo''}) \<and>
   hasCategoryMatch [''cafe'', ''Bakery''] (Some {''cafe'', ''zoo''})"
proof -
  have cats: "parseCategories (map lowerASCII) ''Cafe, ZOO'' = Inr (Some {''cafe'', ''zoo''})"
    by code_simp
  have lib: "\<forall>s. \<not> isASCII s \<longrightarrow> \<not> hasUpperASCII (map lowerASCII s)"
    by (simp add: hasUpperASCII_def list_ex_iff lowerASCII_not_upper)
  have fixed: "lowerASCII (lowerASCII c) = lowerASCII c" for c
    using lowerASCII_not_upper [of c] by (simp add: lowerASCII_def [of "lowerASCII c"])
  have idem: "\<forall>s. ToLower (map lowerASCII) (ToLower (map lowerASCII) s) = ToLower (map lowerASCII) s"
    by (simp add: ToLower_def fixed)
  have upper: "hasUpperASCII ''Cafe''" "hasUpperASCII ''Bakery''"
    by code_simp+
  have changed: "ToLower (map lowerASCII) ''Cafe'' \<noteq> ''Cafe''"
    "ToLower (map lowerASCII) ''Bakery'' \<noteq> ''Bakery''"
    by code_simp+
  show ?thesis
    using category_match_is_literal [OF cats lib, of "[''Cafe'', ''Bakery'']"]
          category_match_is_literal [OF cats lib, of "[''cafe'', ''Bakery'']"]
          cats upper idem changed
    by (simp add: exists_key_def)
qed

text \<open>
  The claim as the specification words it fails for a capital letter that has no
  lower-case form. U+1D400, the mathematical bold capital A, is an upper-case letter that
  \<^verbatim>\<open>strings.ToLower\<close> returns unchanged, as the byte-wise lower-casing used here does.
  A row whose only category is that letter is returned by the search whose filter is the
  same letter.
\<close>

theorem capital_without_lower_case_counterexample:
  "ToLower (map lowerASCII) mathBoldCapitalA = mathBoldCapitalA \<and>
   parseCategories (map lowerASCII) mathBoldCapitalA = Inr (Some {mathBoldCapitalA}) \<and>
   rowCategories (col_main_category capitalRow) (col_alternate_category capitalRow) =
     [mathBoldCapitalA] \<and>
   hasCategoryMatch [mathBoldCapitalA] (Some {mathBoldCapitalA}) \<and>
   Search sampleParseFloat (map lowerASCII) sampleUnmarshal sampleMarshal
     (selectWithin [capitalRow]) ''-1,51,1,52'' mathBoldCapitalA =
     Outcome [] (JSON StatusOK
       (Response (Some [decodedPOI sampleUnmarshal sampleMarshal capitalRow])))"
  by code_simp

subsection \<open>The worked example and the empty result\<close>

text \<open>
  C1, as the code has it. Take a table of one row that lies inside the rectangle
  \<^verbatim>\<open>-1,51,1,52\<close>, whose blob decodes and whose alternate category is
  \<^verbatim>\<open>Bakery\<close>. With the main category \<^verbatim>\<open>Cafe\<close> the filters \<^verbatim>\<open>cafe\<close> and
  \<^verbatim>\<open>zoo\<close> both leave the row out, and a search without a filter returns it with the
  categories \<^verbatim>\<open>Cafe\<close>, \<^verbatim>\<open>Bakery\<close>. With the main category \<^verbatim>\<open>cafe\<close> the filter
  \<^verbatim>\<open>cafe\<close> returns the row with the categories \<^verbatim>\<open>cafe\<close>, \<^verbatim>\<open>Bakery\<close>, and the
  filter \<^verbatim>\<open>zoo\<close> leaves it out.
\<close>

theorem Search_example_row:
  fixes row :: "('f::{zero,linorder}) Row"
  assumes "ParseFloat ''-1'' = Inr l" and "ParseFloat ''51'' = Inr b"
    and "ParseFloat ''1'' = Inr r" and "ParseFloat ''52'' = Inr t"
    and "b \<le> col_lat row" and "col_lat row \<le> t"
    and "l \<le> col_long row" and "col_long row \<le> r"
    and "col_alternate_category row = Some ''Bakery''"
    and "wkbPointToWKT Unmarshal Marshal (col_geom row) = Inr wktString"
  shows "(col_main_category row = Some ''Cafe'' \<longrightarrow>
            Search ParseFloat unicodeLower Unmarshal Marshal (selectWithin [row])
              ''-1,51,1,52'' ''cafe'' = Outcome [] (JSON StatusOK (Response None)) \<and>
            Search ParseFloat unicodeLower Unmarshal Marshal (selectWithin [row])
              ''-1,51,1,52'' ''zoo'' = Outcome [] (JSON StatusOK (Response None)) \<and>
            Search ParseFloat unicodeLower Unmarshal Marshal (selectWithin [row])
              ''-1,51,1,52'' [] =
              Outcome [] (JSON StatusOK
                (Response (Some [scanPOI row wktString [''Cafe'', ''Bakery'']])))) \<and>
         (col_main_category row = Some ''cafe'' \<longrightarrow>
            Search ParseFloat unicodeLower Unmarshal Marshal (selectWithin [row])
              ''-1,51,1,52'' ''cafe'' =
              Outcome [] (JSON StatusOK
                (Response (Some [scanPOI row wktString [''cafe'', ''Bakery'']]))) \<and>
            Search ParseFloat unicodeLower Unmarshal Marshal (selectWithin [row])
              ''-1,51,1,52'' ''zoo'' = Outcome [] (JSON StatusOK (Response None)))"
proof -
  have pieces: "Split ''-1,51,1,52'' CHR '','' = [''-1'', ''51'', ''1'', ''52'']"
    by code_simp
  have trimmed: "map TrimSpace [''-1'', ''51'', ''1'', ''52''] = [''-1'', ''51'', ''1'', ''52'']"
    by code_simp
  have bbox: "parseBBox ParseFloat ''-1,51,1,52'' = Inr [l, b, r, t]"
    using assms(1-4) trimmed by (simp add: parseBBox_eq pieces)
  have query: "selectWithin [row] ([l, b, r, t] ! BOTTOM) ([l, b, r, t] ! TOP)
                 ([l, b, r, t] ! LEFT) ([l, b, r, t] ! RIGHT) =
               Inr \<lparr> scans = [Scanned row], rowsErr = None \<rparr>"
    using assms(5-8) by (simp add: selectWithin_def LEFT_def BOTTOM_def RIGHT_def TOP_def)
  have cafe: "parseCategories unicodeLower ''cafe'' = Inr (Some {''cafe''})"
    by code_simp
  have zoo: "parseCategories unicodeLower ''zoo'' = Inr (Some {''zoo''})"
    by code_simp
  have none: "parseCategories unicodeLower [] = Inr None"
    by (simp add: parseCategories_def)
  have tags: "rowCategories (Some ''Cafe'') (Some ''Bakery'') = [''Cafe'', ''Bakery'']"
    "rowCategories (Some ''cafe'') (Some ''Bakery'') = [''cafe'', ''Bakery'']"
    by code_simp+
  show ?thesis
    using assms(9,10) tags
    by (simp add: Search_def bbox query cafe zoo none Let_def len_map_def exists_key_def
        scanPOI_def)
qed

theorem Search_example_row_witness:
  "Search sampleParseFloat id sampleUnmarshal sampleMarshal (selectWithin [sampleRow])
     ''-1,51,1,52'' ''zoo'' = Outcome [] (JSON StatusOK (Response None)) \<and>
   Search sampleParseFloat id sampleUnmarshal sampleMarshal (selectWithin [sampleRow])
     ''-1,51,1,52'' [] =
     Outcome [] (JSON StatusOK
       (Response (Some [scanPOI sampleRow ''POINT (-0.12 51.5)'' [''Cafe'', ''Bakery'']]))) \<and>
   Search sampleParseFloat id sampleUnmarshal sampleMarshal (selectWithin [sampleTable ! 1])
     ''-1,51,1,52'' ''cafe'' =
     Outcome [] (JSON StatusOK
       (Response (Some [scanPOI (sampleTable ! 1) ''POINT (-0.12 51.5)'' [''cafe'', ''Bakery'']])))"
proof -
  have nums: "sampleParseFloat ''-1'' = Inr (- 1)" "sampleParseFloat ''51'' = Inr 51"
    "sampleParseFloat ''1'' = Inr 1" "sampleParseFloat ''52'' = Inr 52"
    by (simp_all add: sampleParseFloat_def)
  have inside: "51 \<le> col_lat sampleRow" "col_lat sampleRow \<le> 52"
    "- 1 \<le> col_long sampleRow" "col_long sampleRow \<le> 1"
    "51 \<le> col_lat (sampleTable ! 1)" "col_lat (sampleTable ! 1) \<le> 52"
    "- 1 \<le> col_long (sampleTable ! 1)" "col_long (sampleTable ! 1) \<le> 1"
    by (simp_all add: sampleRow_def sampleTable_def)
  have cols: "col_alternate_category sampleRow = Some ''Bakery''"
    "col_main_category sampleRow = Some ''Cafe''"
    "col_alternate_category (sampleTable ! 1) = Some ''Bakery''"
    "col_main_category (sampleTable ! 1) = Some ''cafe''"
    by (simp_all add: sampleRow_def sampleTable_def)
  have decode:
    "wkbPointToWKT sampleUnmarshal sampleMarshal (col_geom sampleRow) = Inr ''POINT (-0.12 51.5)''"
    "wkbPointToWKT sampleUnmarshal sampleMarshal (col_geom (sampleTable ! 1)) =
       Inr ''POINT (-0.12 51.5)''"
    by code_simp+
  show ?thesis
    using Search_example_row [OF nums inside(1-4) cols(1) decode(1), of id]
          Search_example_row [OF nums inside(5-8) cols(3) decode(2), of id]
          cols(2,4)
    by simp
qed

text \<open>
  The claim as the specification words it fails on that row: the filter \<^verbatim>\<open>cafe\<close>
  does not return the row whose main category is stored as \<^verbatim>\<open>Cafe\<close>.
\<close>

theorem Search_cafe_filter_counterexample:
  "col_lat sampleRow = 51.5 \<and> col_long sampleRow = - 0.12 \<and>
   col_main_category sampleRow = Some ''Cafe'' \<and>
   col_alternate_category sampleRow = Some ''Bakery'' \<and>
   selectWithin [sampleRow] 51 52 (- 1) 1 =
     Inr \<lparr> scans = [Scanned sampleRow], rowsErr = None \<rparr> \<and>
   Search sampleParseFloat id sampleUnmarshal sampleMarshal (selectWithin [sampleRow])
     ''-1,51,1,52'' ''cafe'' = Outcome [] (JSON StatusOK (Response None))"
proof -
  have "Search sampleParseFloat id sampleUnmarshal sampleMarshal (selectWithin [sampleRow])
          ''-1,51,1,52'' ''cafe'' = Outcome [] (JSON StatusOK (Response None))"
    by code_simp
  then show ?thesis
    by (simp add: sampleRow_def selectWithin_def)
qed

text \<open>
  C4, as the code has it. When the box and the filter validate, the query succeeds and
  no row passes (in particular when the cursor is empty), the reply is 200 and its
  \<^verbatim>\<open>Results\<close> is the nil slice, because nothing was appended to it. In the JSON text
  the key \<^verbatim>\<open>results\<close> is always present; for the nil slice its value is
  \<^verbatim>\<open>null\<close>, which is not what an empty slice is written as.
\<close>

theorem Search_no_match_is_null:
  assumes "parseBBox ParseFloat bboxParam = Inr bbox"
    and "parseCategories unicodeLower categoriesParam = Inr categories"
    and "Query (bbox ! BOTTOM) (bbox ! TOP) (bbox ! LEFT) (bbox ! RIGHT) =
           Inr \<lparr> scans = map Scanned rows, rowsErr = None \<rparr>"
    and "\<forall>row\<in>set rows. \<not> isl (wkbPointToWKT Unmarshal Marshal (col_geom row))"
    and "filter (\<lambda>poi. categories = None \<or>
                       (\<exists>tag\<in>set (Categories poi). exists_key categories tag))
           (map (decodedPOI Unmarshal Marshal) rows) = []"
  shows "Search ParseFloat unicodeLower Unmarshal Marshal Query bboxParam categoriesParam =
           Outcome [] (JSON StatusOK (Response None)) \<and>
         marshalResponse marshalPOI None =
           ''{'' @ [CHR 0x22] @ ''results'' @ [CHR 0x22] @ '':null}'' \<and>
         marshalResponse marshalPOI (Some []) =
           ''{'' @ [CHR 0x22] @ ''results'' @ [CHR 0x22] @ '':[]}'' \<and>
         marshalResponse marshalPOI None \<noteq> marshalResponse marshalPOI (Some []) \<and>
         (\<exists>val. marshalResponse marshalPOI anyResults =
                  ''{'' @ [CHR 0x22] @ ''results'' @ [CHR 0x22] @ '':'' @ val @ ''}'')"
proof -
  have "Search ParseFloat unicodeLower Unmarshal Marshal Query bboxParam categoriesParam =
          Outcome [] (JSON StatusOK (Response None))"
    using Search_all_decode [where Query = Query, OF assms(1-4)] assms(5) by simp
  then show ?thesis
    by (simp add: marshalResponse_def)
qed

theorem Search_no_match_is_null_witness:
  "Search sampleParseFloat id sampleUnmarshal sampleMarshal (selectWithin sampleTable)
     ''1,2,3,4'' [] = Outcome [] (JSON StatusOK (Response None)) \<and>
   Search sampleParseFloat id sampleUnmarshal sampleMarshal (selectWithin sampleTable)
     ''-1,51,1,52'' ''zoo'' = Outcome [] (JSON StatusOK (Response None)) \<and>
   marshalResponse sampleMarshalPOI None =
     ''{'' @ [CHR 0x22] @ ''results'' @ [CHR 0x22] @ '':null}''"
proof -
  have bbox: "parseBBox sampleParseFloat ''1,2,3,4'' = Inr [1, 2, 3, 4]"
    "parseBBox sampleParseFloat ''-1,51,1,52'' = Inr [- 1, 51, 1, 52]"
    by code_simp+
  have cats: "parseCategories id [] = Inr None" "parseCategories id ''zoo'' = Inr (Some {''zoo''})"
    by code_simp+
  have query:
    "selectWithin sampleTable ([1, 2, 3, 4] ! BOTTOM) ([1, 2, 3, 4] ! TOP)
       ([1, 2, 3, 4] ! LEFT) ([1, 2, 3, 4] ! RIGHT) =
     Inr \<lparr> scans = map Scanned [], rowsErr = None \<rparr>"
    "selectWithin sampleTable ([- 1, 51, 1, 52] ! BOTTOM) ([- 1, 51, 1, 52] ! TOP)
       ([- 1, 51, 1, 52] ! LEFT) ([- 1, 51, 1, 52] ! RIGHT) =
     Inr \<lparr> scans = map Scanned sampleTable, rowsErr = None \<rparr>"
    by (simp_all add: selectWithin_def sampleTable_def sampleRow_def
        LEFT_def BOTTOM_def RIGHT_def TOP_def)
  have decode:
    "\<forall>row\<in>set sampleTable. \<not> isl (wkbPointToWKT sampleUnmarshal sampleMarshal (col_geom row))"
    by code_simp
  have dropped:
    "filter (\<lambda>poi. Some {''zoo''} = None \<or>
                   (\<exists>tag\<in>set (Categories poi). exists_key (Some {''zoo''}) tag))
       (map (decodedPOI sampleUnmarshal sampleMarshal) sampleTable) = []"
    by code_simp
  show ?thesis
    using Search_no_match_is_null [where Query = "selectWithin sampleTable"
            and Unmarshal = sampleUnmarshal and Marshal = sampleMarshal and rows = "[]"
            and marshalPOI = sampleMarshalPOI, OF bbox(1) cats(1) query(1)]
          Search_no_match_is_null [where Query = "selectWithin sampleTable"
            and Unmarshal = sampleUnmarshal and Marshal = sampleMarshal
            and marshalPOI = sampleMarshalPOI, OF bbox(2) cats(2) query(2) decode dropped]
    by simp
qed

text \<open>
  The claim as the specification words it fails: a valid search over an empty table is
  answered with the nil slice, whose JSON text is \<^verbatim>\<open>null\<close> and not an empty array.
\<close>

theorem Search_empty_results_counterexample:
  "Search sampleParseFloat id sampleUnmarshal sampleMarshal (selectWithin [])
     ''-1,51,1,52'' [] = Outcome [] (JSON StatusOK (Response None)) \<and>
   marshalResponse sampleMarshalPOI None =
     ''{'' @ [CHR 0x22] @ ''results'' @ [CHR 0x22] @ '':null}'' \<and>
   marshalResponse sampleMarshalPOI None \<noteq>
     ''{'' @ [CHR 0x22] @ ''results'' @ [CHR 0x22] @ '':[]}''"
proof -
  have "Search sampleParseFloat id sampleUnmarshal sampleMarshal (selectWithin [])
          ''-1,51,1,52'' [] = Outcome [] (JSON StatusOK (Response None))"
    by code_simp
  then show ?thesis
    by (simp add: marshalResponse_def)
qed

end
